theory Spec2Isabelle
  imports Complex_Main
begin

section \<open>Breadboard renderer: geometry constants\<close>

text \<open>
  The module-level constants of \<^verbatim>\<open>render_breadboard_svg.py\<close>. Pixel quantities are
  rationals: the source mixes Python ints with floats that are halves of ints
  (\<^verbatim>\<open>CELL_H*0.5\<close>, \<^verbatim>\<open>(a - b) / 2\<close>, \<^verbatim>\<open>HOLE_W/2\<close>), which binary floating point holds
  exactly for every magnitude below \<open>2^53\<close>. Logical positions (column numbers, row
  indices, counts) are Python ints and stay \<open>int\<close>.
\<close>

definition CELL_W :: rat where "CELL_W = 18"
definition CELL_H :: rat where "CELL_H = 18"
definition MARGIN_X :: rat where "MARGIN_X = 48"
definition MARGIN_Y :: rat where "MARGIN_Y = 36"
definition RAIL_GAP :: rat where "RAIL_GAP = 8"
definition TRENCH_H :: rat where "TRENCH_H = 22"

definition TOP_RAIL_OFFSET :: rat where "TOP_RAIL_OFFSET = - 6"
definition TOP_RAIL_CLEARANCE :: rat where "TOP_RAIL_CLEARANCE = 12"
definition BOTTOM_RAIL_OFFSET :: rat where "BOTTOM_RAIL_OFFSET = 2"
definition RAIL_LINE_WIDTH :: rat where "RAIL_LINE_WIDTH = 3"
definition RAIL_HOLE_OFFSET :: rat where "RAIL_HOLE_OFFSET = 0"
definition RAIL_LINE_OFFSET :: rat where "RAIL_LINE_OFFSET = 6"

definition TOP_RAIL_GAP :: rat where "TOP_RAIL_GAP = 0"
definition BOTTOM_RAIL_GAP :: rat where "BOTTOM_RAIL_GAP = 0"

definition RAIL_GROUPS :: int where "RAIL_GROUPS = 10"
definition RAIL_GROUP_SIZE :: int where "RAIL_GROUP_SIZE = 5"
definition RAIL_GROUP_GAP_COLS :: int where "RAIL_GROUP_GAP_COLS = 1"

definition NUMBER_EVERY :: int where "NUMBER_EVERY = 5"
definition NUM_FONT_SIZE :: rat where "NUM_FONT_SIZE = 10"
definition NUM_TOP_OFFSET :: rat where "NUM_TOP_OFFSET = 10"
definition NUM_BOTTOM_OFFSET :: rat where "NUM_BOTTOM_OFFSET = 10"
definition NUMBER_X_OFFSET_COLS :: int where "NUMBER_X_OFFSET_COLS = - 1"

definition ROW_LABEL_EDGE_OFFSET :: rat where "ROW_LABEL_EDGE_OFFSET = 10"

definition HOLE_W :: rat where "HOLE_W = 6"
definition HOLE_H :: rat where "HOLE_H = 6"
definition HOLE_RX :: rat where "HOLE_RX = 2"

definition MARKER_EDGE_OFFSET :: rat where "MARKER_EDGE_OFFSET = 10"

definition ROW_LABELS :: string where "ROW_LABELS = ''ABCDEFGHIJ''"

text \<open>\<^verbatim>\<open>ROW_INDEX = {ch:i for i,ch in enumerate(ROW_LABELS)}\<close>\<close>

definition ROW_INDEX :: "char \<rightharpoonup> int" where
  "ROW_INDEX = map_of (zip ROW_LABELS (map int [0..<length ROW_LABELS]))"

section \<open>Errors and process state\<close>

text \<open>
  The exceptions the code can raise: \<^verbatim>\<open>pad[0]\<close> on an empty string and \<^verbatim>\<open>pins[1]\<close> on a
  short list (IndexError), \<^verbatim>\<open>int(...)\<close> on a malformed number (ValueError),
  \<^verbatim>\<open>ROW_INDEX[row]\<close> on an unknown letter (KeyError), and a read of the module global
  \<^verbatim>\<open>board_height\<close> before \<^verbatim>\<open>render_board\<close> has assigned it (NameError).
\<close>

datatype py_error = IndexError | ValueError | KeyError | NameError

text \<open>
  The only mutable module state is the global \<^verbatim>\<open>board_height\<close>, unbound until the
  first \<^verbatim>\<open>render_board\<close>.
\<close>

record globals =
  board_height :: "rat option"

definition initial_globals :: globals where
  "initial_globals = \<lparr>board_height = None\<rparr>"

section \<open>Graphic primitives\<close>

text \<open>
  The source assembles SVG text with f-strings. Each element is kept here as a value
  holding the numbers and strings its f-string interpolates, so that a drawing is a
  list of elements in emission order and \<^verbatim>\<open>"\n".join(parts)\<close> is list concatenation.
\<close>

datatype primitive =
    SvgHeader (svg_w: rat) (svg_h: rat)
  | SvgEnd
  | Rect (rect_x: rat) (rect_y: rat) (rect_w: rat) (rect_h: rat) (rect_rx: "rat option")
      (rect_fill: string)
  | Line (line_x1: rat) (line_y1: rat) (line_x2: rat) (line_y2: rat) (line_stroke: string)
      (line_width: rat)
  | Text (text_x: rat) (text_y: rat) (text_size: rat) (text_anchor: string)
      (text_fill: string) (text_body: string)
  | TextRot (rot_x: rat) (rot_y: rat) (rot_size: rat) (rot_fill: string) (rot_angle: rat)
      (rot_body: string)

definition tx_rot :: "rat \<Rightarrow> rat \<Rightarrow> string \<Rightarrow> rat \<Rightarrow> rat \<Rightarrow> string \<Rightarrow> primitive" where
  "tx_rot x y t angle sz fill = TextRot x y sz fill angle t"

definition svg_header :: "rat \<Rightarrow> rat \<Rightarrow> primitive" where
  "svg_header w h = SvgHeader w h"

definition tx :: "rat \<Rightarrow> rat \<Rightarrow> string \<Rightarrow> rat \<Rightarrow> string \<Rightarrow> string \<Rightarrow> primitive" where
  "tx x y t sz anchor fill = Text x y sz anchor fill t"

definition hole :: "rat \<Rightarrow> rat \<Rightarrow> primitive" where
  "hole x y = Rect (x - HOLE_W / 2) (y - HOLE_H / 2) HOLE_W HOLE_H (Some HOLE_RX) ''#222''"

text \<open>
  Reading a drawing back: a hole is the only rectangle filled \<^verbatim>\<open>#222\<close> (the background
  is \<^verbatim>\<open>#fbfbfb\<close>, the trench \<^verbatim>\<open>#f0f2f5\<close>), and its centre undoes the half-size shift
  of \<open>hole\<close>.
\<close>

fun is_hole :: "primitive \<Rightarrow> bool" where
  "is_hole (Rect x y w h rx fill) = (fill = ''#222'')"
| "is_hole _ = False"

definition hole_centre :: "primitive \<Rightarrow> rat \<times> rat" where
  "hole_centre p = (rect_x p + HOLE_W / 2, rect_y p + HOLE_H / 2)"

section \<open>Grid geometry\<close>

definition col_to_x :: "int \<Rightarrow> rat" where
  "col_to_x col = MARGIN_X + of_int col * CELL_W"

definition middle_row_y :: "int \<Rightarrow> bool \<Rightarrow> rat" where
  "middle_row_y row_idx top_rails =
     (let y0 = MARGIN_Y;
          y0 = (if top_rails then y0 + (CELL_H * 2 + TOP_RAIL_GAP + TOP_RAIL_CLEARANCE) else y0)
      in if row_idx \<le> 4 then y0 + of_int row_idx * CELL_H
         else y0 + 5 * CELL_H + TRENCH_H + of_int (row_idx - 5) * CELL_H)"

text \<open>
  \<^verbatim>\<open>rails_y_positions\<close> reads the global \<^verbatim>\<open>board_height\<close> in its bottom branch only.
\<close>

definition rails_y_positions :: "globals \<Rightarrow> bool \<Rightarrow> py_error + (rat \<times> rat)" where
  "rails_y_positions g top_block =
     (if top_block then
        (let gap = TOP_RAIL_GAP; base = MARGIN_Y + TOP_RAIL_OFFSET
         in Inr (base + CELL_H * (1 / 2), base + CELL_H * (3 / 2) + gap))
      else
        (let gap = BOTTOM_RAIL_GAP
         in case board_height g of
              None \<Rightarrow> Inl NameError
            | Some bh \<Rightarrow>
                (let base = bh - MARGIN_Y - (CELL_H * 2 + gap) + BOTTOM_RAIL_OFFSET
                 in Inr (base + CELL_H * (1 / 2), base + CELL_H * (3 / 2) + gap))))"

section \<open>Python string operations used on pad identifiers\<close>

text \<open>
  Pad identifiers and component types are ASCII text. The three library calls the source
  makes on them are modelled as Python defines them on ASCII characters:
  \<^item> \<^verbatim>\<open>str.strip()\<close> removes leading and trailing whitespace, the ASCII whitespace of
    \<^verbatim>\<open>str.isspace\<close> being the codes 9-13, 28-31 and 32;
  \<^item> \<^verbatim>\<open>str.upper()\<close> and \<^verbatim>\<open>str.lower()\<close> map a-z to A-Z and back;
  \<^item> \<^verbatim>\<open>int(s)\<close> in base 10 accepts surrounding whitespace, one optional sign directly
    before the digits, and decimal digits with single underscores between digits; anything
    else raises ValueError. On an ASCII string the whitespace \<^verbatim>\<open>int\<close> skips is that of
    C's \<^verbatim>\<open>isspace\<close>, the codes 9-13 and 32 only: the separators 28-31, which
    \<^verbatim>\<open>str.strip()\<close> removes, are rejected by \<^verbatim>\<open>int\<close>. (The interpreter's configurable
    cap on the number of digits is not part of the model.)
  Characters outside ASCII are ordinary characters here: no whitespace, no case, no digit.
\<close>

definition py_isspace :: "char \<Rightarrow> bool" where
  "py_isspace c = (let n = (of_char c :: nat) in (9 \<le> n \<and> n \<le> 13) \<or> (28 \<le> n \<and> n \<le> 32))"

definition py_strip :: "string \<Rightarrow> string" where
  "py_strip s = rev (dropWhile py_isspace (rev (dropWhile py_isspace s)))"

definition upper_char :: "char \<Rightarrow> char" where
  "upper_char c = (let n = (of_char c :: nat) in if 97 \<le> n \<and> n \<le> 122 then char_of (n - 32) else c)"

definition lower_char :: "char \<Rightarrow> char" where
  "lower_char c = (let n = (of_char c :: nat) in if 65 \<le> n \<and> n \<le> 90 then char_of (n + 32) else c)"

definition py_upper :: "string \<Rightarrow> string" where
  "py_upper s = map upper_char s"

definition py_lower :: "string \<Rightarrow> string" where
  "py_lower s = map lower_char s"

definition is_digit :: "char \<Rightarrow> bool" where
  "is_digit c = (let n = (of_char c :: nat) in 48 \<le> n \<and> n \<le> 57)"

definition digit_val :: "char \<Rightarrow> int" where
  "digit_val c = int (of_char c) - 48"

text \<open>
  The digit scan of \<^verbatim>\<open>int\<close>: \<open>prev\<close> is the previous character (for the underscore
  rules), \<open>acc\<close> the value read so far.
\<close>

fun scan_digits :: "char \<Rightarrow> int \<Rightarrow> string \<Rightarrow> int option" where
  "scan_digits prev acc [] = (if prev = CHR ''_'' then None else Some acc)"
| "scan_digits prev acc (c # cs) =
     (if c = CHR ''_'' then (if prev = CHR ''_'' then None else scan_digits c acc cs)
      else if is_digit c then scan_digits c (acc * 10 + digit_val c) cs
      else None)"

definition int_body :: "string \<Rightarrow> int option" where
  "int_body s =
     (case s of
        [] \<Rightarrow> None
      | c # cs \<Rightarrow> if c = CHR ''_'' then None else scan_digits (CHR 0x00) 0 s)"

definition int_isspace :: "char \<Rightarrow> bool" where
  "int_isspace c = (let n = (of_char c :: nat) in (9 \<le> n \<and> n \<le> 13) \<or> n = 32)"

definition int_strip :: "string \<Rightarrow> string" where
  "int_strip s = rev (dropWhile int_isspace (rev (dropWhile int_isspace s)))"

definition py_int :: "string \<Rightarrow> int option" where
  "py_int s =
     (case int_strip s of
        [] \<Rightarrow> None
      | c # cs \<Rightarrow>
          if c = CHR ''-'' then map_option uminus (int_body cs)
          else if c = CHR ''+'' then int_body cs
          else int_body (c # cs))"

section \<open>Resolving pads\<close>

text \<open>
  \<^verbatim>\<open>pad_to_coords\<close>: the statements run in the source's order, so an empty pad raises
  IndexError at \<^verbatim>\<open>pad[0]\<close>, a malformed column ValueError at \<^verbatim>\<open>int(pad[1:])\<close>, and only
  then an unknown row letter KeyError at \<^verbatim>\<open>ROW_INDEX[row]\<close>.
\<close>

definition pad_to_coords :: "string \<Rightarrow> py_error + (rat \<times> rat)" where
  "pad_to_coords pad0 =
     (let pad = py_upper (py_strip pad0)
      in case pad of
           [] \<Rightarrow> Inl IndexError
         | row # rest \<Rightarrow>
             (case py_int rest of
                None \<Rightarrow> Inl ValueError
              | Some col \<Rightarrow>
                  (let x = col_to_x col
                   in case ROW_INDEX row of
                        None \<Rightarrow> Inl KeyError
                      | Some idx \<Rightarrow> Inr (x, middle_row_y idx True))))"

section \<open>Python built-ins used by the drawing loops\<close>

text \<open>\<^verbatim>\<open>range(n)\<close> is empty for \<open>n \<le> 0\<close>; \<^verbatim>\<open>range(a, b)\<close> likewise for \<open>b \<le> a\<close>.\<close>

definition py_range :: "int \<Rightarrow> int list" where
  "py_range n = [0..n - 1]"

definition py_range2 :: "int \<Rightarrow> int \<Rightarrow> int list" where
  "py_range2 a b = [a..b - 1]"

text \<open>\<^verbatim>\<open>range(a, b, step)\<close> for a positive step: \<open>a, a + step, ...\<close> below \<open>b\<close>.\<close>

definition py_range3 :: "int \<Rightarrow> int \<Rightarrow> int \<Rightarrow> int list" where
  "py_range3 a b step = map (\<lambda>k. a + k * step) [0..(b - a + step - 1) div step - 1]"

text \<open>\<^verbatim>\<open>enumerate(xs, start)\<close>\<close>

definition py_enumerate :: "int \<Rightarrow> 'a list \<Rightarrow> (int \<times> 'a) list" where
  "py_enumerate start xs = zip (map (\<lambda>k. start + int k) [0..<length xs]) xs"

text \<open>\<^verbatim>\<open>str(n)\<close> of an int: decimal digits, with a minus sign below zero.\<close>

fun digits :: "nat \<Rightarrow> string" where
  "digits n = (if n < 10 then [char_of (48 + n)] else digits (n div 10) @ [char_of (48 + n mod 10)])"

declare digits.simps [simp del]

definition py_str :: "int \<Rightarrow> string" where
  "py_str i = (if i < 0 then CHR ''-'' # digits (nat (- i)) else digits (nat i))"

section \<open>Rails\<close>

text \<open>
  The group walk of \<^verbatim>\<open>draw_grouped_rail_holes\<close>: the outer loop over \<open>g\<close> carries the
  cursor \<open>x\<close>, which advances after every group but the last.
\<close>

fun walk_groups :: "int list \<Rightarrow> rat \<Rightarrow> rat \<Rightarrow> primitive list" where
  "walk_groups [] x y_center = []"
| "walk_groups (g # gs) x y_center =
     map (\<lambda>i. hole (x + of_int (i + 1) * CELL_W) y_center) (py_range RAIL_GROUP_SIZE)
     @ walk_groups gs
         (if g < RAIL_GROUPS - 1
          then x + of_int (RAIL_GROUP_SIZE + RAIL_GROUP_GAP_COLS) * CELL_W else x)
         y_center"

definition rail_left_px :: "int \<Rightarrow> rat" where
  "rail_left_px columns =
     (let total_group_cols = RAIL_GROUPS * RAIL_GROUP_SIZE + (RAIL_GROUPS - 1) * RAIL_GROUP_GAP_COLS;
          total_width_px = of_int columns * CELL_W;
          groups_width_px = of_int total_group_cols * CELL_W
      in MARGIN_X + (total_width_px - groups_width_px) / 2)"

definition draw_grouped_rail_holes :: "int \<Rightarrow> rat \<Rightarrow> bool \<Rightarrow> primitive list" where
  "draw_grouped_rail_holes columns y_center plus_row =
     (let left_px = rail_left_px columns
      in walk_groups (py_range RAIL_GROUPS) left_px y_center)"

definition draw_rails :: "globals \<Rightarrow> int \<Rightarrow> bool \<Rightarrow> py_error + primitive list" where
  "draw_rails g columns top_block =
     (case rails_y_positions g top_block of
        Inl e \<Rightarrow> Inl e
      | Inr (y_plus, y_minus) \<Rightarrow>
          (let width = of_int columns * CELL_W;
               x1 = MARGIN_X - 18;
               x2 = MARGIN_X - 18 + width + 36;
               x_left_mark = MARGIN_X - MARKER_EDGE_OFFSET;
               x_right_mark = MARGIN_X + of_int columns * CELL_W + MARKER_EDGE_OFFSET
           in Inr
               ([Line x1 (y_plus - RAIL_LINE_OFFSET) x2 (y_plus - RAIL_LINE_OFFSET)
                   ''#e34444'' RAIL_LINE_WIDTH,
                 Line x1 (y_minus + RAIL_LINE_OFFSET) x2 (y_minus + RAIL_LINE_OFFSET)
                   ''#2a6de0'' RAIL_LINE_WIDTH,
                 tx x_left_mark (y_plus + 4) ''+'' 14 ''middle'' ''#e34444'',
                 tx x_left_mark (y_minus + 4) [CHR 0xE2, CHR 0x80, CHR 0x93] 14 ''middle'' ''#2a6de0'',
                 tx x_right_mark (y_plus + 4) ''+'' 14 ''middle'' ''#e34444'',
                 tx x_right_mark (y_minus + 4) [CHR 0xE2, CHR 0x80, CHR 0x93] 14 ''middle'' ''#2a6de0'']
                @ draw_grouped_rail_holes columns (y_plus + RAIL_HOLE_OFFSET) True
                @ draw_grouped_rail_holes columns (y_minus + RAIL_HOLE_OFFSET) False)))"

section \<open>Labels and the middle field\<close>

definition draw_row_labels :: "int \<Rightarrow> bool \<Rightarrow> bool \<Rightarrow> primitive list" where
  "draw_row_labels columns left right =
     (let x_left = MARGIN_X - ROW_LABEL_EDGE_OFFSET;
          x_right = MARGIN_X + of_int columns * CELL_W + ROW_LABEL_EDGE_OFFSET;
          label = (\<lambda>(i, ch).
            (let y = middle_row_y i True
             in (if left then [tx_rot x_left y [ch] 90 11 ''#333''] else [])
                @ (if right then [tx_rot x_right y [ch] 90 11 ''#333''] else [])))
      in concat (map label (py_enumerate 0 (take 5 ROW_LABELS)))
         @ concat (map label (py_enumerate 5 (drop 5 ROW_LABELS))))"

definition draw_column_numbers :: "globals \<Rightarrow> int \<Rightarrow> py_error + primitive list" where
  "draw_column_numbers g columns =
     (case rails_y_positions g True of
        Inl e \<Rightarrow> Inl e
      | Inr (y_top_plus, y_top_minus) \<Rightarrow>
     (case rails_y_positions g False of
        Inl e \<Rightarrow> Inl e
      | Inr (y_bot_plus, y_bot_minus) \<Rightarrow>
          (let y_top_blue_line = y_top_minus + RAIL_LINE_OFFSET;
               y_bottom_red_line = y_bot_plus - RAIL_LINE_OFFSET;
               y_top_labels = y_top_blue_line + NUM_TOP_OFFSET;
               y_bottom_labels = y_bottom_red_line - NUM_BOTTOM_OFFSET;
               start = (columns div NUMBER_EVERY) * NUMBER_EVERY;
               count = start div NUMBER_EVERY
           in Inr (concat (map
                (\<lambda>i. (let col = (i + 1) * NUMBER_EVERY;
                           label = start - i * NUMBER_EVERY;
                           x = col_to_x (col + NUMBER_X_OFFSET_COLS)
                       in [tx_rot x y_top_labels (py_str label) 90 NUM_FONT_SIZE ''#333'',
                           tx_rot x y_bottom_labels (py_str label) 90 NUM_FONT_SIZE ''#333'']))
                (py_range count))))))"

definition row_holes :: "int \<Rightarrow> int \<Rightarrow> primitive list" where
  "row_holes columns i =
     (let y = middle_row_y i True
      in map (\<lambda>c. hole (col_to_x c) y) (py_range2 1 (columns + 1)))"

definition draw_middle :: "int \<Rightarrow> primitive list" where
  "draw_middle columns =
     (let y_top = middle_row_y 4 True + CELL_H / 2
      in concat (map (row_holes columns) (py_range 5))
         @ [Rect (MARGIN_X - 24) y_top (of_int columns * CELL_W + 48) TRENCH_H (Some 6) ''#f0f2f5'']
         @ concat (map (row_holes columns) (py_range2 5 10))
         @ map (\<lambda>c. (let x = col_to_x c
                      in Line x (MARGIN_Y - 4) x (MARGIN_Y + 2) ''#bbb'' 1))
             (py_range3 5 (columns + 1) 5))"

section \<open>Components\<close>

definition draw_resistor :: "string \<Rightarrow> string \<Rightarrow> string \<Rightarrow> py_error + primitive list" where
  "draw_resistor p1 p2 label =
     (case pad_to_coords p1 of
        Inl e \<Rightarrow> Inl e
      | Inr (x1, y1) \<Rightarrow>
     (case pad_to_coords p2 of
        Inl e \<Rightarrow> Inl e
      | Inr (x2, y2) \<Rightarrow>
          (let midx = (x1 + x2) / 2;
               midy = (y1 + y2) / 2 - 10
           in Inr [Line x1 y1 x2 y2 ''#9c642b'' 3,
                   tx midx midy (if label = [] then ''R'' else label) 11 ''middle'' ''#333''])))"

section \<open>Rendering a board\<close>

text \<open>
  \<^verbatim>\<open>render_board\<close> assigns the global \<^verbatim>\<open>board_height\<close> before it draws anything; the
  state it returns holds that assignment also when a later step raises.
\<close>

definition render_board ::
  "int \<Rightarrow> bool \<Rightarrow> bool \<Rightarrow> globals \<Rightarrow> (py_error + (rat \<times> rat \<times> primitive list)) \<times> globals" where
  "render_board columns rail_top rail_bottom g =
     (let height = MARGIN_Y;
          height = (if rail_top then height + (CELL_H * 2 + RAIL_GAP) else height);
          height = height + (10 * CELL_H + TRENCH_H);
          height = (if rail_bottom then height + (CELL_H * 2 + RAIL_GAP) else height);
          height = height + MARGIN_Y;
          width = MARGIN_X + of_int columns * CELL_W + MARGIN_X;
          g = g\<lparr>board_height := Some height\<rparr>;
          parts = [svg_header width height, Rect 0 0 width height None ''#fbfbfb'']
      in (case (if rail_top then draw_rails g columns True else Inr []) of
            Inl e \<Rightarrow> Inl e
          | Inr top_rails \<Rightarrow>
         (case draw_column_numbers g columns of
            Inl e \<Rightarrow> Inl e
          | Inr numbers \<Rightarrow>
         (case (if rail_bottom then draw_rails g columns False else Inr []) of
            Inl e \<Rightarrow> Inl e
          | Inr bottom_rails \<Rightarrow>
              Inr (width, height,
                   parts @ top_rails @ numbers @ draw_middle columns
                   @ draw_row_labels columns True True @ bottom_rails @ [SvgEnd]))),
          g))"

section \<open>The entry point\<close>

text \<open>
  The layout document \<^verbatim>\<open>main\<close> reads: the board fields, the two rail flags and the
  component list being optional (\<^verbatim>\<open>.get\<close> with a default), and each component a type,
  a list of pins and an optional value.
\<close>

record component =
  comp_type :: string
  comp_pins :: "string list"
  comp_value :: "string option"

record layout =
  board_columns :: int
  board_rail_top :: "bool option"
  board_rail_bottom :: "bool option"
  layout_components :: "component list option"

text \<open>
  The component loop of \<^verbatim>\<open>main\<close>: only a component whose lower-cased type is
  \<^verbatim>\<open>resistor\<close> reaches \<^verbatim>\<open>draw_resistor\<close>; an exception there ends the loop.
\<close>

fun comp_svg :: "component list \<Rightarrow> py_error + primitive list" where
  "comp_svg [] = Inr []"
| "comp_svg (cmp # comps) =
     (let typ = py_lower (comp_type cmp)
      in if typ = ''resistor'' then
           (case comp_pins cmp of
              p1 # p2 # _ \<Rightarrow>
                (case draw_resistor p1 p2 (case comp_value cmp of None \<Rightarrow> [] | Some v \<Rightarrow> v) of
                   Inl e \<Rightarrow> Inl e
                 | Inr r \<Rightarrow>
                     (case comp_svg comps of Inl e \<Rightarrow> Inl e | Inr rest \<Rightarrow> Inr (r @ rest)))
            | _ \<Rightarrow> Inl IndexError)
         else comp_svg comps)"

text \<open>
  \<^verbatim>\<open>main\<close> places the board drawing and then the component elements into the page; the
  result is the page's graphic elements in document order. The drawing ends with the
  closing tag that \<^verbatim>\<open>render_board\<close> appends, so the component elements follow it.
\<close>

definition main :: "layout \<Rightarrow> globals \<Rightarrow> (py_error + primitive list) \<times> globals" where
  "main cfg g =
     (let columns = board_columns cfg;
          rail_top = (case board_rail_top cfg of None \<Rightarrow> True | Some b \<Rightarrow> b);
          rail_bottom = (case board_rail_bottom cfg of None \<Rightarrow> True | Some b \<Rightarrow> b)
      in case render_board columns rail_top rail_bottom g of
           (Inl e, g') \<Rightarrow> (Inl e, g')
         | (Inr (width, height, svg), g') \<Rightarrow>
             (case comp_svg (case layout_components cfg of None \<Rightarrow> [] | Some cs \<Rightarrow> cs) of
                Inl e \<Rightarrow> (Inl e, g')
              | Inr comps \<Rightarrow> (Inr (svg @ comps), g')))"

section \<open>Reading a drawing back\<close>

text \<open>
  The connector of a resistor is the only line stroked \<^verbatim>\<open>#9c642b\<close> (rail lines are
  \<^verbatim>\<open>#e34444\<close> and \<^verbatim>\<open>#2a6de0\<close>, tick marks \<^verbatim>\<open>#bbb\<close>).
\<close>

fun is_connector :: "primitive \<Rightarrow> bool" where
  "is_connector (Line x1 y1 x2 y2 stroke w) = (stroke = ''#9c642b'')"
| "is_connector _ = False"

text \<open>The y-coordinate of a hole's centre.\<close>

definition hole_y :: "primitive \<Rightarrow> rat" where
  "hole_y p = snd (hole_centre p)"

definition hole_x :: "primitive \<Rightarrow> rat" where
  "hole_x p = fst (hole_centre p)"

text \<open>
  A row letter is the only rotated text of size 11 (column numbers have size
  \<open>NUM_FONT_SIZE\<close>).
\<close>

fun is_row_label :: "primitive \<Rightarrow> bool" where
  "is_row_label (TextRot x y sz fill angle t) = (sz = 11)"
| "is_row_label _ = False"

text \<open>
  The drawing is the element list of a \<^verbatim>\<open>render_board\<close> result, from the header to the
  closing tag; it is empty when the call raised.
\<close>

definition drawing_of :: "(py_error + (rat \<times> rat \<times> primitive list)) \<times> globals \<Rightarrow> primitive list" where
  "drawing_of r = (case fst r of Inl e \<Rightarrow> [] | Inr (w, h, d) \<Rightarrow> d)"

text \<open>
  A middle-field hole is a hole on one of the ten row lines; a rail hole is a hole on one
  of the rail row centres that \<^verbatim>\<open>rails_y_positions\<close> gives in the state at hand.
\<close>

definition middle_rows :: "rat list" where
  "middle_rows = map (\<lambda>i. middle_row_y i True) [0..9]"

definition is_middle_hole :: "primitive \<Rightarrow> bool" where
  "is_middle_hole p = (is_hole p \<and> hole_y p \<in> set middle_rows)"

definition rail_rows :: "globals \<Rightarrow> rat list" where
  "rail_rows g =
     concat (map (\<lambda>top_block.
        (case rails_y_positions g top_block of
           Inl e \<Rightarrow> []
         | Inr (y_plus, y_minus) \<Rightarrow> [y_plus + RAIL_HOLE_OFFSET, y_minus + RAIL_HOLE_OFFSET]))
       [True, False])"

definition is_rail_hole :: "globals \<Rightarrow> primitive \<Rightarrow> bool" where
  "is_rail_hole g p = (is_hole p \<and> hole_y p \<in> set (rail_rows g))"

section \<open>Calls against the process state\<close>

text \<open>
  To compare the coordinate functions across call histories, a call of the module is a
  value, \<open>exec\<close> runs one call in a process state, and \<open>run\<close> a sequence of them. Only
  \<^verbatim>\<open>render_board\<close> writes the state; only \<^verbatim>\<open>rails_y_positions\<close> reads it.
\<close>

datatype call =
    ColToX int
  | MiddleRowY int bool
  | RailsYPositions bool
  | PadToCoords string
  | RenderBoard int bool bool

datatype outcome =
    Number rat
  | Point "rat \<times> rat"
  | Raised py_error
  | Rendered "rat \<times> rat \<times> primitive list"

fun exec :: "call \<Rightarrow> globals \<Rightarrow> outcome \<times> globals" where
  "exec (ColToX col) g = (Number (col_to_x col), g)"
| "exec (MiddleRowY row_idx top_rails) g = (Number (middle_row_y row_idx top_rails), g)"
| "exec (RailsYPositions top_block) g =
     ((case rails_y_positions g top_block of Inl e \<Rightarrow> Raised e | Inr p \<Rightarrow> Point p), g)"
| "exec (PadToCoords pad) g =
     ((case pad_to_coords pad of Inl e \<Rightarrow> Raised e | Inr p \<Rightarrow> Point p), g)"
| "exec (RenderBoard columns rail_top rail_bottom) g =
     (case render_board columns rail_top rail_bottom g of
        (Inl e, g') \<Rightarrow> (Raised e, g')
      | (Inr r, g') \<Rightarrow> (Rendered r, g'))"

fun run :: "call list \<Rightarrow> globals \<Rightarrow> globals" where
  "run [] g = g"
| "run (c # cs) g = run cs (snd (exec c g))"

section \<open>Properties\<close>

lemmas geom_consts =
  CELL_W_def CELL_H_def MARGIN_X_def MARGIN_Y_def RAIL_GAP_def TRENCH_H_def
  TOP_RAIL_OFFSET_def TOP_RAIL_CLEARANCE_def BOTTOM_RAIL_OFFSET_def RAIL_LINE_WIDTH_def
  RAIL_HOLE_OFFSET_def RAIL_LINE_OFFSET_def TOP_RAIL_GAP_def BOTTOM_RAIL_GAP_def
  RAIL_GROUPS_def RAIL_GROUP_SIZE_def RAIL_GROUP_GAP_COLS_def NUMBER_EVERY_def
  NUM_FONT_SIZE_def NUM_TOP_OFFSET_def NUM_BOTTOM_OFFSET_def NUMBER_X_OFFSET_COLS_def
  ROW_LABEL_EDGE_OFFSET_def HOLE_W_def HOLE_H_def HOLE_RX_def MARKER_EDGE_OFFSET_def

lemmas string_defs =
  py_upper_def py_lower_def py_strip_def py_isspace_def upper_char_def lower_char_def

subsection \<open>Pad resolution\<close>

lemma ROW_INDEX_None: "ROW_INDEX c = None \<longleftrightarrow> c \<notin> set ROW_LABELS"
  by (simp add: ROW_INDEX_def ROW_LABELS_def map_of_eq_None_iff)

lemma py_isspace_upper: "py_isspace (upper_char c) = py_isspace c"
  by (simp add: py_isspace_def upper_char_def Let_def) force

lemma upper_char_idem: "upper_char (upper_char c) = upper_char c"
  by (simp add: upper_char_def Let_def) linarith

lemma dropWhile_rev_trim:
  "dropWhile P (rev (dropWhile P (rev (dropWhile P s)))) = rev (dropWhile P (rev (dropWhile P s)))"
proof (cases "dropWhile P (rev (dropWhile P s)) = []")
  case True
  show ?thesis unfolding True by simp
next
  case False
  define t where "t = dropWhile P s"
  from False have ne: "dropWhile P (rev t) \<noteq> []" by (simp add: t_def)
  then have tne: "t \<noteq> []" by auto
  then have nP: "\<not> P (hd t)" unfolding t_def by (rule hd_dropWhile)
  have "hd t \<in> set (rev t)" using tne by simp
  then have "last (dropWhile P (rev t)) = last (rev t)"
    using nP by (rule dropWhile_last)
  then have "hd (rev (dropWhile P (rev t))) = hd t"
    using ne tne by (simp add: hd_rev last_rev)
  then have "\<not> P (hd (rev (dropWhile P (rev t))))" using nP by simp
  then have "dropWhile P (rev (dropWhile P (rev t))) = rev (dropWhile P (rev t))"
    by (simp add: dropWhile_eq_self_iff)
  then show ?thesis by (simp add: t_def)
qed

lemma py_strip_idem: "py_strip (py_strip s) = py_strip s"
  by (simp add: py_strip_def dropWhile_rev_trim)

lemma py_strip_upper: "py_strip (py_upper s) = py_upper (py_strip s)"
  by (simp add: py_strip_def py_upper_def dropWhile_map rev_map comp_def py_isspace_upper)

lemma normalize_idem: "py_upper (py_strip (py_upper (py_strip s))) = py_upper (py_strip s)"
proof -
  have "py_upper (py_upper t) = py_upper t" for t
    by (simp add: py_upper_def upper_char_idem)
  then show ?thesis
    by (simp add: py_strip_upper py_strip_idem)
qed

text \<open>
  C7. The pads \<^verbatim>\<open>A1\<close>, \<^verbatim>\<open>E1\<close> and \<^verbatim>\<open>F1\<close> resolve to the same x-coordinate; the
  y-coordinate of \<^verbatim>\<open>E1\<close> is four row pitches below that of \<^verbatim>\<open>A1\<close>, and the
  y-coordinate of \<^verbatim>\<open>F1\<close> is five row pitches plus the trench height below it.
\<close>

theorem pad_rows_across_trench:
  "pad_to_coords ''A1'' = Inr (66, 84) \<and>
   pad_to_coords ''E1'' = Inr (66, 84 + 4 * CELL_H) \<and>
   pad_to_coords ''F1'' = Inr (66, 84 + (5 * CELL_H + TRENCH_H))"
  by code_simp

text \<open>
  C1, as stated, fails: \<^verbatim>\<open>pad_to_coords\<close> takes no column count and applies no range
  check, so the pad \<^verbatim>\<open>A0\<close> resolves to coordinates (one column pitch left of column 1)
  instead of raising.
\<close>

theorem pad_A0_resolves: "pad_to_coords ''A0'' = Inr (48, 84)"
  by code_simp

text \<open>
  \<^verbatim>\<open>int\<close> does not skip the separator characters that \<^verbatim>\<open>str.strip()\<close> removes: a pad
  with the code 28 between the row letter and the column raises ValueError, while a space
  or a tab there is accepted.
\<close>

lemma pad_inner_whitespace:
  "pad_to_coords [CHR ''A'', CHR 0x1C, CHR ''5''] = Inl ValueError \<and>
   pad_to_coords [CHR ''A'', CHR 0x20, CHR ''5''] = Inr (138, 84) \<and>
   pad_to_coords [CHR ''A'', CHR 0x09, CHR ''5''] = Inr (138, 84) \<and>
   pad_to_coords [CHR 0x1C, CHR ''A'', CHR ''5'', CHR 0x1F] = Inr (138, 84)"
  by code_simp

text \<open>
  C1, amended. Resolving a pad raises exactly when the pad, stripped and upper-cased, is
  empty, or its first character is not one of the ten row labels, or the rest is not
  accepted by \<^verbatim>\<open>int\<close>; the column number is not compared with the board's column count.
  The error passes through \<^verbatim>\<open>draw_resistor\<close> unchanged, and \<^verbatim>\<open>K1\<close> raises KeyError.
\<close>

theorem pad_to_coords_raises_iff:
  "(isl (pad_to_coords s) \<longleftrightarrow>
      (py_upper (py_strip s) = [] \<or>
       hd (py_upper (py_strip s)) \<notin> set ROW_LABELS \<or>
       py_int (tl (py_upper (py_strip s))) = None)) \<and>
   (pad_to_coords p1 = Inl e \<longrightarrow> draw_resistor p1 p2 label = Inl e) \<and>
   (pad_to_coords p1 = Inr xy \<and> pad_to_coords p2 = Inl e \<longrightarrow> draw_resistor p1 p2 label = Inl e) \<and>
   pad_to_coords ''K1'' = Inl KeyError"
proof (intro conjI)
  show "isl (pad_to_coords s) \<longleftrightarrow>
      (py_upper (py_strip s) = [] \<or>
       hd (py_upper (py_strip s)) \<notin> set ROW_LABELS \<or>
       py_int (tl (py_upper (py_strip s))) = None)"
    by (auto simp: pad_to_coords_def Let_def ROW_INDEX_None[symmetric]
        split: list.splits option.splits)
  show "pad_to_coords p1 = Inl e \<longrightarrow> draw_resistor p1 p2 label = Inl e"
    by (simp add: draw_resistor_def)
  show "pad_to_coords p1 = Inr xy \<and> pad_to_coords p2 = Inl e \<longrightarrow> draw_resistor p1 p2 label = Inl e"
    by (cases xy) (simp add: draw_resistor_def)
  show "pad_to_coords ''K1'' = Inl KeyError"
    by code_simp
qed

theorem pad_to_coords_raises_iff_witness:
  "hd (py_upper (py_strip ''K1'')) \<notin> set ROW_LABELS \<and>
   isl (pad_to_coords ''K1'') \<and>
   pad_to_coords ''A5'' = Inr (138, 84) \<and> pad_to_coords ''5'' = Inl ValueError \<and>
   draw_resistor ''A5'' ''5'' ''R1'' = Inl ValueError \<and>
   draw_resistor ''K1'' ''A5'' ''R1'' = Inl KeyError"
proof -
  have a5: "pad_to_coords ''A5'' = Inr (138, 84)" by code_simp
  have five: "pad_to_coords ''5'' = Inl ValueError" by code_simp
  have k1: "hd (py_upper (py_strip ''K1'')) \<notin> set ROW_LABELS"
    by (simp add: string_defs ROW_LABELS_def)
  note inst1 = pad_to_coords_raises_iff
    [of "''K1''" "''A5''" ValueError "''5''" "''R1''" "(138, 84)"]
  note inst2 = pad_to_coords_raises_iff
    [of "''K1''" "''K1''" KeyError "''A5''" "''R1''" "(138, 84)"]
  from inst1 inst2 a5 five k1 show ?thesis by simp
qed

text \<open>
  C10. A pad is stripped of surrounding whitespace and upper-cased before it is resolved:
  resolving a pad and resolving its normalised form give the same result, so \<^verbatim>\<open>a5\<close>,
  \<^verbatim>\<open>A5\<close> between spaces, and \<^verbatim>\<open>A5\<close> resolve to the same coordinates.
\<close>

theorem pad_to_coords_normalized:
  "pad_to_coords s = pad_to_coords (py_upper (py_strip s)) \<and>
   pad_to_coords ''a5'' = Inr (138, 84) \<and>
   pad_to_coords '' A5 '' = Inr (138, 84) \<and>
   pad_to_coords ''A5'' = Inr (138, 84)"
proof (intro conjI)
  show "pad_to_coords s = pad_to_coords (py_upper (py_strip s))"
    by (simp add: pad_to_coords_def normalize_idem)
  show "pad_to_coords ''a5'' = Inr (138, 84)" by code_simp
  show "pad_to_coords '' A5 '' = Inr (138, 84)" by code_simp
  show "pad_to_coords ''A5'' = Inr (138, 84)" by code_simp
qed

subsection \<open>Rail holes\<close>

lemma rail_holes_closed:
  "draw_grouped_rail_holes columns y pr =
     map (\<lambda>k. hole (rail_left_px columns + of_int (k + k div 5 + 1) * CELL_W) y) [0..49]"
  by (simp add: draw_grouped_rail_holes_def py_range_def RAIL_GROUPS_def RAIL_GROUP_SIZE_def
      RAIL_GROUP_GAP_COLS_def upto_rec1 Let_def algebra_simps)

lemma hole_centre_hole: "hole_centre (hole x y) = (x, y)"
  by (simp add: hole_centre_def hole_def)

lemma is_hole_hole: "is_hole (hole x y)"
  by (simp add: hole_def)

lemma rail_holes_centres:
  "map hole_centre (draw_grouped_rail_holes columns y pr) =
     map (\<lambda>k. (rail_left_px columns + of_int (k + k div 5 + 1) * CELL_W, y)) [0..49]"
  by (simp only: rail_holes_closed list.map_comp comp_def hole_centre_hole)

lemma rail_holes_length: "length (draw_grouped_rail_holes columns y pr) = 50"
  by (simp add: rail_holes_closed)

lemma rail_holes_nth:
  assumes "k < 50"
  shows "draw_grouped_rail_holes columns y pr ! k =
     hole (rail_left_px columns + of_int (int k + int k div 5 + 1) * CELL_W) y"
  using assms by (simp only: rail_holes_closed) (simp add: nth_upto)

lemma hole_x_hole: "hole_x (hole x y) = x"
  by (simp add: hole_x_def hole_centre_hole)

lemma hole_y_hole: "hole_y (hole x y) = y"
  by (simp add: hole_y_def hole_centre_hole)

lemma rail_holes_x:
  "k < 50 \<Longrightarrow> hole_x (draw_grouped_rail_holes columns y pr ! k) =
     rail_left_px columns + of_int (int k + int k div 5 + 1) * CELL_W"
  by (simp add: rail_holes_nth hole_x_hole)

lemma rail_holes_all:
  "p \<in> set (draw_grouped_rail_holes columns y pr) \<Longrightarrow> is_hole p \<and> hole_y p = y"
  by (auto simp: rail_holes_closed is_hole_hole hole_y_hole simp del: upto.simps)

lemma rail_step:
  assumes "k < 49"
  shows "hole_x (draw_grouped_rail_holes columns y pr ! Suc k)
          - hole_x (draw_grouped_rail_holes columns y pr ! k) =
         (if Suc k mod 5 = 0 then 2 * CELL_W else CELL_W)"
proof -
  have d: "int (Suc k) + int (Suc k) div 5 + 1 - (int k + int k div 5 + 1) =
      (if Suc k mod 5 = 0 then 2 else 1)"
  proof -
    have "int (Suc k) div 5 = int (Suc k div 5)" "int k div 5 = int (k div 5)"
      by (simp_all add: zdiv_int)
    then show ?thesis
      by (simp only: div_Suc) (simp split: if_splits)
  qed
  have "hole_x (draw_grouped_rail_holes columns y pr ! Suc k)
          - hole_x (draw_grouped_rail_holes columns y pr ! k) =
        of_int (int (Suc k) + int (Suc k) div 5 + 1 - (int k + int k div 5 + 1)) * CELL_W"
    using assms by (simp only: rail_holes_x of_int_diff) (simp add: algebra_simps)
  also have "\<dots> = (if Suc k mod 5 = 0 then 2 * CELL_W else CELL_W)"
    by (simp only: d) simp
  finally show ?thesis .
qed

lemma rail_apart:
  assumes "j < k" "k < 50"
  shows "CELL_W \<le> hole_x (draw_grouped_rail_holes columns y pr ! k)
          - hole_x (draw_grouped_rail_holes columns y pr ! j)"
proof -
  have "int j div 5 \<le> int k div 5" using assms by (simp add: zdiv_mono1)
  then have d: "1 \<le> int k + int k div 5 + 1 - (int j + int j div 5 + 1)"
    using assms by linarith
  have "hole_x (draw_grouped_rail_holes columns y pr ! k)
          - hole_x (draw_grouped_rail_holes columns y pr ! j) =
        of_int (int k + int k div 5 + 1 - (int j + int j div 5 + 1)) * CELL_W"
    using assms by (simp only: rail_holes_x of_int_diff) (simp add: algebra_simps)
  moreover have "(1::rat) \<le> of_int (int k + int k div 5 + 1 - (int j + int j div 5 + 1))"
    using d by (metis of_int_1 of_int_le_iff)
  ultimately show ?thesis
    by (simp add: CELL_W_def)
qed

text \<open>
  C6. With 10 groups of 5 holes and a gap of one blank column, a rail row has exactly 50
  holes, all on the row's y. Consecutive holes are one column pitch apart inside a group
  and two pitches apart (one blank column) from the last hole of a group to the first of
  the next; any two holes of the row are at least one pitch apart. The row ends with the
  fifth hole of the tenth group, so no gap follows the final group.
\<close>

theorem rail_row_grouping:
  "length (draw_grouped_rail_holes columns y plus_row) = 50 \<and>
   (\<forall>p \<in> set (draw_grouped_rail_holes columns y plus_row). is_hole p \<and> hole_y p = y) \<and>
   (\<forall>k < 49. hole_x (draw_grouped_rail_holes columns y plus_row ! Suc k)
               - hole_x (draw_grouped_rail_holes columns y plus_row ! k) =
        (if Suc k mod 5 = 0 then 2 * CELL_W else CELL_W)) \<and>
   (\<forall>j k. j < k \<and> k < 50 \<longrightarrow>
        CELL_W \<le> hole_x (draw_grouped_rail_holes columns y plus_row ! k)
                 - hole_x (draw_grouped_rail_holes columns y plus_row ! j))"
  using rail_holes_length rail_holes_all rail_step rail_apart by blast


theorem rail_row_grouping_witness:
  "length (draw_grouped_rail_holes 63 39 True) = 50 \<and>
   hole_x (draw_grouped_rail_holes 63 39 True ! Suc 0)
     - hole_x (draw_grouped_rail_holes 63 39 True ! 0) = CELL_W \<and>
   hole_x (draw_grouped_rail_holes 63 39 True ! Suc 4)
     - hole_x (draw_grouped_rail_holes 63 39 True ! 4) = 2 * CELL_W \<and>
   CELL_W \<le> hole_x (draw_grouped_rail_holes 63 39 True ! 49)
     - hole_x (draw_grouped_rail_holes 63 39 True ! 0) \<and>
   hole_y (draw_grouped_rail_holes 63 39 True ! 0) = 39"
proof -
  note r = rail_row_grouping [of 63 39 True]
  from r have len: "length (draw_grouped_rail_holes 63 39 True) = 50" by (rule conjunct1)
  from r have ally: "\<forall>p \<in> set (draw_grouped_rail_holes 63 39 True). is_hole p \<and> hole_y p = 39"
    by blast
  from r have step: "\<forall>k < 49. hole_x (draw_grouped_rail_holes 63 39 True ! Suc k)
               - hole_x (draw_grouped_rail_holes 63 39 True ! k) =
        (if Suc k mod 5 = 0 then 2 * CELL_W else CELL_W)" by blast
  from r have apart: "\<forall>j k. j < k \<and> k < 50 \<longrightarrow>
        CELL_W \<le> hole_x (draw_grouped_rail_holes 63 39 True ! k)
                 - hole_x (draw_grouped_rail_holes 63 39 True ! j)" by blast
  have "draw_grouped_rail_holes 63 39 True ! 0 \<in> set (draw_grouped_rail_holes 63 39 True)"
    using len by (simp only: nth_mem)
  with ally have y0: "hole_y (draw_grouped_rail_holes 63 39 True ! 0) = 39" by blast
  from step have s0: "hole_x (draw_grouped_rail_holes 63 39 True ! Suc 0)
     - hole_x (draw_grouped_rail_holes 63 39 True ! 0) = CELL_W"
    by (drule_tac x = 0 in spec) simp
  from step have s4: "hole_x (draw_grouped_rail_holes 63 39 True ! Suc 4)
     - hole_x (draw_grouped_rail_holes 63 39 True ! 4) = 2 * CELL_W"
    by (drule_tac x = 4 in spec) simp
  from apart have a: "CELL_W \<le> hole_x (draw_grouped_rail_holes 63 39 True ! 49)
     - hole_x (draw_grouped_rail_holes 63 39 True ! 0)"
    by (drule_tac x = 0 in spec, drule_tac x = 49 in spec) simp
  from len s0 s4 a y0 show ?thesis by blast
qed

lemma rail_holes_hd:
  "hole_x (hd (draw_grouped_rail_holes columns y pr)) = rail_left_px columns + CELL_W"
proof -
  have "hd (draw_grouped_rail_holes columns y pr) = draw_grouped_rail_holes columns y pr ! 0"
    by (rule hd_conv_nth) (use rail_holes_length [of columns y pr] in auto)
  then show ?thesis by (simp add: rail_holes_x)
qed

lemma rail_holes_last:
  "hole_x (last (draw_grouped_rail_holes columns y pr)) = rail_left_px columns + 59 * CELL_W"
proof -
  have "last (draw_grouped_rail_holes columns y pr) = draw_grouped_rail_holes columns y pr ! 49"
    using rail_holes_length [of columns y pr]
    by (subst last_conv_nth) auto
  then show ?thesis by (simp add: rail_holes_x)
qed

lemma rail_holes_between:
  assumes "p \<in> set (draw_grouped_rail_holes columns y pr)"
  shows "rail_left_px columns + CELL_W \<le> hole_x p \<and> hole_x p \<le> rail_left_px columns + 59 * CELL_W"
proof -
  from assms obtain k where k: "k < 50" and p: "p = draw_grouped_rail_holes columns y pr ! k"
    by (metis in_set_conv_nth rail_holes_length)
  have "int k div 5 \<le> 9" using k by simp
  then have "int k + int k div 5 + 1 \<le> 59" "1 \<le> int k + int k div 5 + 1" using k by simp_all
  then have "(of_int (int k + int k div 5 + 1) :: rat) \<le> 59"
       "(1 :: rat) \<le> of_int (int k + int k div 5 + 1)"
    by (metis of_int_le_iff of_int_numeral, metis of_int_le_iff of_int_1)
  then show ?thesis
    using k by (simp only: p rail_holes_x) (simp add: CELL_W_def)
qed

lemma rail_left_px_lin: "rail_left_px columns = 9 * of_int columns - 483"
  by (simp add: rail_left_px_def Let_def geom_consts field_simps)

text \<open>
  C3, as stated, fails: on a 63-column board the leftmost rail hole is 54 pixels from the
  left edge \<open>x = MARGIN_X\<close> of the hole field, the rightmost one 36 pixels from the right
  edge \<open>x = MARGIN_X + columns * CELL_W\<close>.
\<close>

theorem rail_block_off_centre:
  "hole_x (hd (draw_grouped_rail_holes 63 39 True)) - MARGIN_X = 54 \<and>
   MARGIN_X + 63 * CELL_W - hole_x (last (draw_grouped_rail_holes 63 39 True)) = 36"
  by (simp add: rail_holes_hd rail_holes_last rail_left_px_lin geom_consts)

text \<open>
  C3, amended. For every column count the block's left pixel offset is
  \<open>MARGIN_X + (columns * CELL_W - 59 * CELL_W) / 2\<close>, and the holes are emitted one column
  pitch to the right of it (the source's \<^verbatim>\<open>(i+1) * CELL_W\<close>): the leftmost hole at the
  offset plus one pitch, the rightmost at the offset plus 59 pitches, every hole of the row
  between them. The leftmost hole is therefore one pitch farther from \<open>x = MARGIN_X\<close> than
  the rightmost is from \<open>x = MARGIN_X + columns * CELL_W\<close>; the row is centred over the
  hole columns instead: the leftmost hole is as far from column 1 as the rightmost is
  from the last column.
\<close>

theorem rail_block_placement:
  "rail_left_px columns = MARGIN_X + (of_int columns * CELL_W - 59 * CELL_W) / 2 \<and>
   hole_x (hd (draw_grouped_rail_holes columns y plus_row)) = rail_left_px columns + CELL_W \<and>
   hole_x (last (draw_grouped_rail_holes columns y plus_row)) = rail_left_px columns + 59 * CELL_W \<and>
   (\<forall>p \<in> set (draw_grouped_rail_holes columns y plus_row).
      hole_x (hd (draw_grouped_rail_holes columns y plus_row)) \<le> hole_x p \<and>
      hole_x p \<le> hole_x (last (draw_grouped_rail_holes columns y plus_row))) \<and>
   hole_x (hd (draw_grouped_rail_holes columns y plus_row)) - MARGIN_X =
     (MARGIN_X + of_int columns * CELL_W
        - hole_x (last (draw_grouped_rail_holes columns y plus_row))) + CELL_W \<and>
   hole_x (hd (draw_grouped_rail_holes columns y plus_row)) - col_to_x 1 =
     col_to_x columns - hole_x (last (draw_grouped_rail_holes columns y plus_row))"
proof (intro conjI ballI)
  show "rail_left_px columns = MARGIN_X + (of_int columns * CELL_W - 59 * CELL_W) / 2"
    by (simp add: rail_left_px_def Let_def RAIL_GROUPS_def RAIL_GROUP_SIZE_def RAIL_GROUP_GAP_COLS_def)
  show "hole_x (hd (draw_grouped_rail_holes columns y plus_row)) = rail_left_px columns + CELL_W"
    by (rule rail_holes_hd)
  show "hole_x (last (draw_grouped_rail_holes columns y plus_row)) = rail_left_px columns + 59 * CELL_W"
    by (rule rail_holes_last)
  show "hole_x (hd (draw_grouped_rail_holes columns y plus_row)) \<le> hole_x p"
    if "p \<in> set (draw_grouped_rail_holes columns y plus_row)" for p
    using rail_holes_between [OF that] by (simp add: rail_holes_hd)
  show "hole_x p \<le> hole_x (last (draw_grouped_rail_holes columns y plus_row))"
    if "p \<in> set (draw_grouped_rail_holes columns y plus_row)" for p
    using rail_holes_between [OF that] by (simp add: rail_holes_last)
  show "hole_x (hd (draw_grouped_rail_holes columns y plus_row)) - MARGIN_X =
     (MARGIN_X + of_int columns * CELL_W
        - hole_x (last (draw_grouped_rail_holes columns y plus_row))) + CELL_W"
    by (simp add: rail_holes_hd rail_holes_last rail_left_px_lin geom_consts)
  show "hole_x (hd (draw_grouped_rail_holes columns y plus_row)) - col_to_x 1 =
     col_to_x columns - hole_x (last (draw_grouped_rail_holes columns y plus_row))"
    by (simp add: rail_holes_hd rail_holes_last rail_left_px_lin col_to_x_def geom_consts)
qed

theorem rail_block_placement_witness:
  "draw_grouped_rail_holes 63 39 True ! 7 \<in> set (draw_grouped_rail_holes 63 39 True) \<and>
   hole_x (hd (draw_grouped_rail_holes 63 39 True))
     \<le> hole_x (draw_grouped_rail_holes 63 39 True ! 7) \<and>
   hole_x (draw_grouped_rail_holes 63 39 True ! 7)
     \<le> hole_x (last (draw_grouped_rail_holes 63 39 True)) \<and>
   hole_x (hd (draw_grouped_rail_holes 63 39 True)) - col_to_x 1 =
     col_to_x 63 - hole_x (last (draw_grouped_rail_holes 63 39 True))"
proof -
  have m: "draw_grouped_rail_holes 63 39 True ! 7 \<in> set (draw_grouped_rail_holes 63 39 True)"
    by (rule nth_mem) (simp add: rail_holes_length)
  note r = rail_block_placement [of 63 39 True]
  from r have "\<forall>p \<in> set (draw_grouped_rail_holes 63 39 True).
      hole_x (hd (draw_grouped_rail_holes 63 39 True)) \<le> hole_x p \<and>
      hole_x p \<le> hole_x (last (draw_grouped_rail_holes 63 39 True))" by blast
  with m have "hole_x (hd (draw_grouped_rail_holes 63 39 True))
     \<le> hole_x (draw_grouped_rail_holes 63 39 True ! 7) \<and>
   hole_x (draw_grouped_rail_holes 63 39 True ! 7)
     \<le> hole_x (last (draw_grouped_rail_holes 63 39 True))" by blast
  moreover from r have "hole_x (hd (draw_grouped_rail_holes 63 39 True)) - col_to_x 1 =
     col_to_x (63::int) - hole_x (last (draw_grouped_rail_holes 63 39 True))"
    by simp
  ultimately show ?thesis using m by blast
qed

subsection \<open>Rail row centres and the process state\<close>

lemma rails_y_top: "rails_y_positions g True = Inr (39, 57)"
  by (simp add: rails_y_positions_def Let_def geom_consts)

lemma rails_y_bottom:
  "board_height g = Some bh \<Longrightarrow> rails_y_positions g False = Inr (bh - 61, bh - 43)"
  by (simp add: rails_y_positions_def Let_def geom_consts)

lemma rails_y_bottom_unset:
  "board_height g = None \<Longrightarrow> rails_y_positions g False = Inl NameError"
  by (simp add: rails_y_positions_def Let_def)

lemma render_board_state:
  "snd (render_board columns rail_top rail_bottom g) =
     \<lparr>board_height = Some (274 + (if rail_top then 44 else 0) + (if rail_bottom then 44 else 0))\<rparr>"
  by (cases g) (simp add: render_board_def Let_def geom_consts)

lemma globals_update: "g\<lparr>board_height := h\<rparr> = \<lparr>board_height = h\<rparr>"
  by (cases g) simp

lemma render_board_fst_state:
  "fst (render_board columns rail_top rail_bottom g) =
   fst (render_board columns rail_top rail_bottom g')"
  by (simp add: render_board_def Let_def globals_update)

lemma run_append: "run (cs @ ds) g = run ds (run cs g)"
  by (induction cs arbitrary: g) simp_all

lemma exec_render_state:
  "snd (exec (RenderBoard columns rail_top rail_bottom) g) =
     \<lparr>board_height = Some (274 + (if rail_top then 44 else 0) + (if rail_bottom then 44 else 0))\<rparr>"
  using render_board_state [of columns rail_top rail_bottom g]
  by (cases "render_board columns rail_top rail_bottom g")
     (auto split: sum.splits)

lemma run_render:
  "run (h @ [RenderBoard columns rail_top rail_bottom]) g =
     \<lparr>board_height = Some (274 + (if rail_top then 44 else 0) + (if rail_bottom then 44 else 0))\<rparr>"
  by (simp only: run_append run.simps exec_render_state)

text \<open>
  C4, as stated, fails for the rail row centres: \<^verbatim>\<open>rails_y_positions(top=False)\<close> reads
  the global \<^verbatim>\<open>board_height\<close>. Before any render it raises NameError; after a render of
  a board with both rail blocks it returns (301, 319); after a later render of a board
  without rails the same call returns (213, 231).
\<close>

theorem rails_depend_on_last_render:
  "rails_y_positions initial_globals False = Inl NameError \<and>
   rails_y_positions (snd (render_board 63 True True initial_globals)) False = Inr (301, 319) \<and>
   rails_y_positions
     (snd (render_board 63 False False (snd (render_board 63 True True initial_globals)))) False =
     Inr (213, 231)"
  by (simp add: render_board_state rails_y_bottom rails_y_bottom_unset initial_globals_def
     )

text \<open>
  C4, amended. \<^verbatim>\<open>col_to_x\<close>, \<^verbatim>\<open>middle_row_y\<close>, \<^verbatim>\<open>pad_to_coords\<close> and
  \<^verbatim>\<open>rails_y_positions(top=True)\<close> return the same result after any two call histories
  from any two states, and so does a \<^verbatim>\<open>render_board\<close> call, which assigns the global
  before it draws. \<^verbatim>\<open>rails_y_positions(top=False)\<close> is a function of the global alone:
  after any history that ends with a render, its result is determined by the rail flags
  of that last render (not by the column count or anything earlier).
\<close>

theorem coordinate_functions_state:
  "fst (exec (ColToX col) (run h1 g1)) = fst (exec (ColToX col) (run h2 g2)) \<and>
   fst (exec (MiddleRowY row_idx top_rails) (run h1 g1)) =
     fst (exec (MiddleRowY row_idx top_rails) (run h2 g2)) \<and>
   fst (exec (PadToCoords pad) (run h1 g1)) = fst (exec (PadToCoords pad) (run h2 g2)) \<and>
   fst (exec (RailsYPositions True) (run h1 g1)) = fst (exec (RailsYPositions True) (run h2 g2)) \<and>
   fst (exec (RenderBoard columns rail_top rail_bottom) (run h1 g1)) =
     fst (exec (RenderBoard columns rail_top rail_bottom) (run h2 g2)) \<and>
   fst (exec (RailsYPositions False)
          (run (h1 @ [RenderBoard columns rail_top rail_bottom]) g1)) =
     fst (exec (RailsYPositions False)
          (run (h2 @ [RenderBoard columns' rail_top rail_bottom]) g2)) \<and>
   fst (exec (RailsYPositions False)
          (run (h1 @ [RenderBoard columns rail_top rail_bottom]) g1)) =
     Point (213 + (if rail_top then 44 else 0) + (if rail_bottom then 44 else 0),
            231 + (if rail_top then 44 else 0) + (if rail_bottom then 44 else 0))"
proof (intro conjI)
  show "fst (exec (RenderBoard columns rail_top rail_bottom) (run h1 g1)) =
     fst (exec (RenderBoard columns rail_top rail_bottom) (run h2 g2))"
    using render_board_fst_state [of columns rail_top rail_bottom "run h1 g1" "run h2 g2"]
    by (cases "render_board columns rail_top rail_bottom (run h1 g1)";
        cases "render_board columns rail_top rail_bottom (run h2 g2)")
       (auto split: sum.splits)
  show "fst (exec (RailsYPositions False)
          (run (h1 @ [RenderBoard columns rail_top rail_bottom]) g1)) =
     fst (exec (RailsYPositions False)
          (run (h2 @ [RenderBoard columns' rail_top rail_bottom]) g2))"
    by (simp only: run_render)
  show "fst (exec (RailsYPositions False)
          (run (h1 @ [RenderBoard columns rail_top rail_bottom]) g1)) =
     Point (213 + (if rail_top then 44 else 0) + (if rail_bottom then 44 else 0),
            231 + (if rail_top then 44 else 0) + (if rail_bottom then 44 else 0))"
    by (simp only: run_render) (simp add: rails_y_bottom geom_consts)
qed (simp_all add: rails_y_top)

subsection \<open>Column numbers\<close>

lemma py_str_labels:
  "map py_str [60, 55, 50, 45, 40, 35, 30, 25, 20, 15, 10, 5] =
     [''60'', ''55'', ''50'', ''45'', ''40'', ''35'', ''30'', ''25'', ''20'', ''15'', ''10'', ''5'']"
  by code_simp

text \<open>
  C2, amended. On a 63-column board with interval 5, once \<^verbatim>\<open>board_height\<close> is set, each
  rail line carries 12 labels; the i-th from the left (from 0) is at the x-coordinate of
  column \<open>(i + 1) * 5 + NUMBER_X_OFFSET_COLS\<close>, that is of columns 4, 9, ..., 59, and shows
  the value \<open>60 - i * 5\<close>, that is 60, 55, ..., 5 from left to right. The top label line
  is at \<open>y = 73\<close>, the bottom one 77 pixels above the canvas bottom.
\<close>

theorem column_numbers_63:
  assumes "board_height g = Some bh"
  shows "draw_column_numbers g 63 =
      Inr (concat (map (\<lambda>i.
        [TextRot (col_to_x ((i + 1) * NUMBER_EVERY + NUMBER_X_OFFSET_COLS)) 73 NUM_FONT_SIZE ''#333'' 90
           (py_str (60 - i * NUMBER_EVERY)),
         TextRot (col_to_x ((i + 1) * NUMBER_EVERY + NUMBER_X_OFFSET_COLS)) (bh - 77) NUM_FONT_SIZE ''#333'' 90
           (py_str (60 - i * NUMBER_EVERY))]) [0..11])) \<and>
    map (\<lambda>i. (i + 1) * NUMBER_EVERY + NUMBER_X_OFFSET_COLS) [0..11] =
      [4, 9, 14, 19, 24, 29, 34, 39, 44, 49, 54, 59] \<and>
    map (\<lambda>i. py_str (60 - i * NUMBER_EVERY)) [0..11] =
      [''60'', ''55'', ''50'', ''45'', ''40'', ''35'', ''30'', ''25'', ''20'', ''15'', ''10'', ''5'']"
proof (intro conjI)
  show "draw_column_numbers g 63 =
      Inr (concat (map (\<lambda>i.
        [TextRot (col_to_x ((i + 1) * NUMBER_EVERY + NUMBER_X_OFFSET_COLS)) 73 NUM_FONT_SIZE ''#333'' 90
           (py_str (60 - i * NUMBER_EVERY)),
         TextRot (col_to_x ((i + 1) * NUMBER_EVERY + NUMBER_X_OFFSET_COLS)) (bh - 77) NUM_FONT_SIZE ''#333'' 90
           (py_str (60 - i * NUMBER_EVERY))]) [0..11]))"
    by (simp add: draw_column_numbers_def rails_y_top rails_y_bottom [OF assms] Let_def
        py_range_def tx_rot_def NUMBER_EVERY_def NUMBER_X_OFFSET_COLS_def RAIL_LINE_OFFSET_def
        NUM_TOP_OFFSET_def NUM_BOTTOM_OFFSET_def NUM_FONT_SIZE_def del: upto.simps)
  show "map (\<lambda>i. (i + 1) * NUMBER_EVERY + NUMBER_X_OFFSET_COLS) [0..11] =
      [4, 9, 14, 19, 24, 29, 34, 39, 44, 49, 54, 59]"
    by (simp add: upto_rec1 NUMBER_EVERY_def NUMBER_X_OFFSET_COLS_def)
  have "map (\<lambda>i. py_str (60 - i * NUMBER_EVERY)) [0..11] =
      map py_str [60, 55, 50, 45, 40, 35, 30, 25, 20, 15, 10, 5]"
    by (simp add: upto_rec1 NUMBER_EVERY_def)
  then show "map (\<lambda>i. py_str (60 - i * NUMBER_EVERY)) [0..11] =
      [''60'', ''55'', ''50'', ''45'', ''40'', ''35'', ''30'', ''25'', ''20'', ''15'', ''10'', ''5'']"
    by (simp only: py_str_labels)
qed

theorem column_numbers_63_witness:
  "board_height \<lparr>board_height = Some 362\<rparr> = Some 362 \<and>
   draw_column_numbers \<lparr>board_height = Some 362\<rparr> 63 =
      Inr (concat (map (\<lambda>i.
        [TextRot (col_to_x ((i + 1) * NUMBER_EVERY + NUMBER_X_OFFSET_COLS)) 73 NUM_FONT_SIZE ''#333'' 90
           (py_str (60 - i * NUMBER_EVERY)),
         TextRot (col_to_x ((i + 1) * NUMBER_EVERY + NUMBER_X_OFFSET_COLS)) (362 - 77) NUM_FONT_SIZE ''#333'' 90
           (py_str (60 - i * NUMBER_EVERY))]) [0..11]))"
  using column_numbers_63 [of "\<lparr>board_height = Some 362\<rparr>" 362] by simp

text \<open>
  C2, as stated, fails: in the state a render of the 63-column board with both rail blocks
  leaves (\<^verbatim>\<open>board_height\<close> 362), the first labels are at \<open>x = 120\<close>, the x-coordinate of
  column 4, not at that of column 5; every label sits one column left of a multiple of 5.
\<close>

theorem column_numbers_not_on_fives:
  "draw_column_numbers \<lparr>board_height = Some 362\<rparr> 63 =
     Inr [TextRot 120 73 10 ''#333'' 90 ''60'', TextRot 120 285 10 ''#333'' 90 ''60'',
          TextRot 210 73 10 ''#333'' 90 ''55'', TextRot 210 285 10 ''#333'' 90 ''55'',
          TextRot 300 73 10 ''#333'' 90 ''50'', TextRot 300 285 10 ''#333'' 90 ''50'',
          TextRot 390 73 10 ''#333'' 90 ''45'', TextRot 390 285 10 ''#333'' 90 ''45'',
          TextRot 480 73 10 ''#333'' 90 ''40'', TextRot 480 285 10 ''#333'' 90 ''40'',
          TextRot 570 73 10 ''#333'' 90 ''35'', TextRot 570 285 10 ''#333'' 90 ''35'',
          TextRot 660 73 10 ''#333'' 90 ''30'', TextRot 660 285 10 ''#333'' 90 ''30'',
          TextRot 750 73 10 ''#333'' 90 ''25'', TextRot 750 285 10 ''#333'' 90 ''25'',
          TextRot 840 73 10 ''#333'' 90 ''20'', TextRot 840 285 10 ''#333'' 90 ''20'',
          TextRot 930 73 10 ''#333'' 90 ''15'', TextRot 930 285 10 ''#333'' 90 ''15'',
          TextRot 1020 73 10 ''#333'' 90 ''10'', TextRot 1020 285 10 ''#333'' 90 ''10'',
          TextRot 1110 73 10 ''#333'' 90 ''5'', TextRot 1110 285 10 ''#333'' 90 ''5''] \<and>
   col_to_x 4 = 120 \<and> col_to_x 5 = 138"
  by code_simp

subsection \<open>Components\<close>

lemma comp_svg_skip:
  "py_lower (comp_type c) \<noteq> ''resistor'' \<Longrightarrow> comp_svg (c # cs) = comp_svg cs"
  by (simp add: Let_def)

lemma comp_svg_filter:
  "comp_svg comps = comp_svg (filter (\<lambda>c. py_lower (comp_type c) = ''resistor'') comps)"
proof (induction comps)
  case Nil
  show ?case by simp
next
  case (Cons c cs)
  show ?case
  proof (cases "py_lower (comp_type c) = ''resistor''")
    case True
    then show ?thesis
      by (simp add: Let_def Cons.IH [symmetric] split: list.splits sum.splits)
  next
    case False
    with Cons show ?thesis by (simp add: Let_def)
  qed
qed

lemma comp_svg_none:
  "\<forall>c \<in> set comps. py_lower (comp_type c) \<noteq> ''resistor'' \<Longrightarrow> comp_svg comps = Inr []"
  by (induction comps) (simp_all add: Let_def)

lemma draw_resistor_connectors:
  "draw_resistor p1 p2 l = Inr r \<Longrightarrow> length (filter is_connector r) = 1"
  by (auto simp: draw_resistor_def Let_def tx_def split: sum.splits prod.splits)

lemma comp_svg_connectors:
  "comp_svg comps = Inr ps \<Longrightarrow>
     length (filter is_connector ps) =
     length (filter (\<lambda>c. py_lower (comp_type c) = ''resistor'') comps)"
proof (induction comps arbitrary: ps)
  case Nil
  then show ?case by simp
next
  case (Cons c cs)
  show ?case
  proof (cases "py_lower (comp_type c) = ''resistor''")
    case False
    with Cons show ?thesis by (simp add: Let_def)
  next
    case True
    with Cons.prems obtain p1 p2 rest r ps' where
      pins: "comp_pins c = p1 # p2 # rest" and
      r: "draw_resistor p1 p2 (case comp_value c of None \<Rightarrow> [] | Some v \<Rightarrow> v) = Inr r" and
      ps': "comp_svg cs = Inr ps'" and ps: "ps = r @ ps'"
      by (auto simp: Let_def split: list.splits sum.splits)
    from Cons.IH [OF ps'] draw_resistor_connectors [OF r] True ps
    show ?thesis by simp
  qed
qed

text \<open>
  C8, as stated, fails: \<^verbatim>\<open>main\<close> lower-cases the type before comparing it, so a
  component whose type is \<^verbatim>\<open>RESISTOR\<close>, which is not \<^verbatim>\<open>resistor\<close>, is drawn.
\<close>

theorem upper_case_resistor_drawn:
  "comp_type \<lparr>comp_type = ''RESISTOR'', comp_pins = [''A5'', ''E5''], comp_value = None\<rparr>
     \<noteq> ''resistor'' \<and>
   comp_svg [\<lparr>comp_type = ''RESISTOR'', comp_pins = [''A5'', ''E5''], comp_value = None\<rparr>] =
     Inr [Line 138 84 138 156 ''#9c642b'' 3, Text 138 110 11 ''middle'' ''#333'' ''R'']"
  by code_simp

text \<open>
  C8, amended. The type is compared after lower-casing. The component loop gives the
  same result as on the list restricted to the components whose lower-cased type is
  \<^verbatim>\<open>resistor\<close>: any other component can be removed without changing the result, so it
  emits nothing and raises nothing, and a list without resistors yields no elements.
  Every component whose lower-cased type is \<^verbatim>\<open>resistor\<close> goes through
  \<^verbatim>\<open>draw_resistor\<close> with its first two pins: when the loop succeeds, its output is
  that component's elements followed by those of the rest, and the number of connector
  lines equals the number of such components.
\<close>

theorem components_by_type:
  "comp_svg comps = comp_svg (filter (\<lambda>c. py_lower (comp_type c) = ''resistor'') comps) \<and>
   (py_lower (comp_type c) \<noteq> ''resistor'' \<longrightarrow> comp_svg (before @ c # after) = comp_svg (before @ after)) \<and>
   ((\<forall>c \<in> set comps. py_lower (comp_type c) \<noteq> ''resistor'') \<longrightarrow> comp_svg comps = Inr []) \<and>
   (comp_svg comps = Inr ps \<longrightarrow>
      length (filter is_connector ps) =
      length (filter (\<lambda>c. py_lower (comp_type c) = ''resistor'') comps)) \<and>
   (py_lower (comp_type c) = ''resistor'' \<and> comp_svg (c # comps) = Inr ps \<longrightarrow>
      (\<exists>p1 p2 rest r ps'.
         comp_pins c = p1 # p2 # rest \<and>
         draw_resistor p1 p2 (case comp_value c of None \<Rightarrow> [] | Some v \<Rightarrow> v) = Inr r \<and>
         comp_svg comps = Inr ps' \<and> ps = r @ ps'))"
proof (intro conjI impI)
  show "comp_svg comps = comp_svg (filter (\<lambda>c. py_lower (comp_type c) = ''resistor'') comps)"
    by (rule comp_svg_filter)
  show "comp_svg (before @ c # after) = comp_svg (before @ after)"
    if "py_lower (comp_type c) \<noteq> ''resistor''"
    using comp_svg_filter [of "before @ c # after"] comp_svg_filter [of "before @ after"] that
    by simp
  show "comp_svg comps = Inr []" if "\<forall>c \<in> set comps. py_lower (comp_type c) \<noteq> ''resistor''"
    using that by (rule comp_svg_none)
  show "length (filter is_connector ps) =
      length (filter (\<lambda>c. py_lower (comp_type c) = ''resistor'') comps)"
    if "comp_svg comps = Inr ps"
    using that by (rule comp_svg_connectors)
  show "\<exists>p1 p2 rest r ps'.
         comp_pins c = p1 # p2 # rest \<and>
         draw_resistor p1 p2 (case comp_value c of None \<Rightarrow> [] | Some v \<Rightarrow> v) = Inr r \<and>
         comp_svg comps = Inr ps' \<and> ps = r @ ps'"
    if "py_lower (comp_type c) = ''resistor'' \<and> comp_svg (c # comps) = Inr ps"
    using that by (auto simp: Let_def split: list.splits sum.splits)
qed


theorem components_by_type_witness:
  "py_lower (comp_type \<lparr>comp_type = ''led'', comp_pins = [''A1'', ''B1''], comp_value = None\<rparr>)
     \<noteq> ''resistor'' \<and>
   py_lower (comp_type \<lparr>comp_type = ''Resistor'', comp_pins = [''A5'', ''E5''], comp_value = None\<rparr>)
     = ''resistor'' \<and>
   comp_svg [\<lparr>comp_type = ''Resistor'', comp_pins = [''A5'', ''E5''], comp_value = None\<rparr>] =
     Inr [Line 138 84 138 156 ''#9c642b'' 3, Text 138 110 11 ''middle'' ''#333'' ''R''] \<and>
   comp_svg [\<lparr>comp_type = ''led'', comp_pins = [''A1'', ''B1''], comp_value = None\<rparr>,
             \<lparr>comp_type = ''Resistor'', comp_pins = [''A5'', ''E5''], comp_value = None\<rparr>] =
     Inr [Line 138 84 138 156 ''#9c642b'' 3, Text 138 110 11 ''middle'' ''#333'' ''R''] \<and>
   comp_svg [\<lparr>comp_type = ''led'', comp_pins = [''A1'', ''B1''], comp_value = None\<rparr>] = Inr [] \<and>
   length (filter is_connector
      [Line 138 84 138 156 ''#9c642b'' 3, Text 138 110 11 ''middle'' ''#333'' ''R'']) =
   length (filter (\<lambda>c. py_lower (comp_type c) = ''resistor'')
      [\<lparr>comp_type = ''Resistor'', comp_pins = [''A5'', ''E5''], comp_value = None\<rparr>])"
proof -
  define led where
    "led = \<lparr>comp_type = ''led'', comp_pins = [''A1'', ''B1''], comp_value = None\<rparr>"
  define res where
    "res = \<lparr>comp_type = ''Resistor'', comp_pins = [''A5'', ''E5''], comp_value = None\<rparr>"
  define ps where
    "ps = [Line 138 84 138 156 ''#9c642b'' 3, Text 138 110 11 ''middle'' ''#333'' ''R'']"
  have led: "py_lower (comp_type led) \<noteq> ''resistor''"
    by (simp add: led_def string_defs)
  have res: "py_lower (comp_type res) = ''resistor''"
    unfolding res_def by code_simp
  have one: "comp_svg [res] = Inr ps"
    unfolding res_def ps_def by code_simp
  note a = components_by_type [of "[led]" led "[]" "[res]" ps]
  note b = components_by_type [of "[res]" led "[]" "[res]" ps]
  from a led have two: "comp_svg [led, res] = comp_svg [res]" by simp
  from a led have none: "comp_svg [led] = Inr []" by simp
  from b one have cnt: "length (filter is_connector ps) =
      length (filter (\<lambda>c. py_lower (comp_type c) = ''resistor'') [res])" by blast
  from led res one two none cnt show ?thesis
    unfolding led_def res_def ps_def by simp
qed

subsection \<open>The drawing of a board\<close>

lemma is_connector_hole: "\<not> is_connector (hole x y)"
  by (simp add: hole_def)

lemma filter_hole_rail_row:
  "filter is_hole (draw_grouped_rail_holes columns y pr) = draw_grouped_rail_holes columns y pr"
  by (rule filter_True) (simp add: rail_holes_all)

lemma filter_connector_rail_row:
  "filter is_connector (draw_grouped_rail_holes columns y pr) = []"
  by (simp add: rail_holes_closed filter_empty_conv is_connector_hole del: upto.simps)


lemma is_row_label_hole: "\<not> is_row_label (hole x y)"
  by (simp add: hole_def)

lemma filter_label_rail_row:
  "filter is_row_label (draw_grouped_rail_holes columns y pr) = []"
  by (simp add: rail_holes_closed filter_empty_conv is_row_label_hole del: upto.simps)

lemma draw_rails_holes:
  assumes "rails_y_positions g top_block = Inr (y_plus, y_minus)"
  shows "\<exists>r. draw_rails g columns top_block = Inr r \<and>
           filter is_hole r =
             draw_grouped_rail_holes columns y_plus True
             @ draw_grouped_rail_holes columns y_minus False \<and>
           filter is_connector r = [] \<and> filter is_row_label r = []"
  using assms
  by (simp add: draw_rails_def Let_def tx_def RAIL_HOLE_OFFSET_def filter_hole_rail_row
      filter_connector_rail_row filter_label_rail_row)

lemma draw_column_numbers_plain:
  assumes "board_height g = Some bh"
  shows "\<exists>n. draw_column_numbers g columns = Inr n \<and> filter is_hole n = [] \<and>
           filter is_connector n = [] \<and> filter is_row_label n = []"
  by (simp add: draw_column_numbers_def rails_y_top rails_y_bottom [OF assms] Let_def
      tx_rot_def filter_concat comp_def NUM_FONT_SIZE_def)

lemma draw_row_labels_plain:
  "filter is_hole (draw_row_labels columns l r) = [] \<and>
   filter is_connector (draw_row_labels columns l r) = []"
  by (simp add: draw_row_labels_def Let_def tx_rot_def filter_concat comp_def split_def)

lemma draw_row_labels_all:
  "filter is_row_label (draw_row_labels columns l r) = draw_row_labels columns l r"
  by (rule filter_True)
     (auto simp: draw_row_labels_def Let_def tx_rot_def split_def)

lemma row_holes_filter:
  "filter is_hole (row_holes columns i) = row_holes columns i \<and>
   filter is_connector (row_holes columns i) = [] \<and>
   filter is_row_label (row_holes columns i) = []"
  by (simp add: row_holes_def Let_def filter_empty_conv is_connector_hole is_hole_hole
      is_row_label_hole del: upto.simps)

lemma draw_middle_holes:
  "filter is_hole (draw_middle columns) = concat (map (row_holes columns) [0..9])"
proof -
  have "[0..9] = [0..4] @ [5..9]" by (simp add: upto_rec1)
  then show ?thesis
    by (simp add: draw_middle_def Let_def py_range_def py_range2_def filter_concat comp_def
        row_holes_filter del: upto.simps)
qed

lemma draw_middle_plain:
  "filter is_connector (draw_middle columns) = [] \<and>
   filter is_row_label (draw_middle columns) = []"
  by (simp add: draw_middle_def Let_def filter_concat comp_def row_holes_filter
      del: upto.simps)

lemma render_board_parts:
  "\<exists>d. render_board columns rail_top rail_bottom g =
          (Inr (MARGIN_X + of_int columns * CELL_W + MARGIN_X,
                274 + (if rail_top then 44 else 0) + (if rail_bottom then 44 else 0), d),
           \<lparr>board_height = Some (274 + (if rail_top then 44 else 0) + (if rail_bottom then 44 else 0))\<rparr>) \<and>
        filter is_hole d =
          (if rail_top then draw_grouped_rail_holes columns 39 True
                            @ draw_grouped_rail_holes columns 57 False else [])
          @ concat (map (row_holes columns) [0..9])
          @ (if rail_bottom then
               draw_grouped_rail_holes columns
                 (213 + (if rail_top then 44 else 0) + (if rail_bottom then 44 else 0)) True
               @ draw_grouped_rail_holes columns
                 (231 + (if rail_top then 44 else 0) + (if rail_bottom then 44 else 0)) False
             else []) \<and>
        filter is_connector d = [] \<and>
        filter is_row_label d = draw_row_labels columns True True"
proof -
  define h :: rat where "h = 274 + (if rail_top then 44 else 0) + (if rail_bottom then 44 else 0)"
  define g' where "g' = \<lparr>board_height = Some h\<rparr>"
  have bh: "board_height g' = Some h" by (simp add: g'_def)
  obtain top where top: "draw_rails g' columns True = Inr top"
    "filter is_hole top = draw_grouped_rail_holes columns 39 True
             @ draw_grouped_rail_holes columns 57 False" "filter is_connector top = []"
    "filter is_row_label top = []"
    using draw_rails_holes [OF rails_y_top, of g' columns] by blast
  obtain bot where bot: "draw_rails g' columns False = Inr bot"
    "filter is_hole bot = draw_grouped_rail_holes columns (h - 61) True
             @ draw_grouped_rail_holes columns (h - 43) False" "filter is_connector bot = []"
    "filter is_row_label bot = []"
    using draw_rails_holes [OF rails_y_bottom [OF bh], of columns] by blast
  obtain n where n: "draw_column_numbers g' columns = Inr n" "filter is_hole n = []"
    "filter is_connector n = []" "filter is_row_label n = []"
    using draw_column_numbers_plain [OF bh] by blast
  from top bot n show ?thesis
    by (cases rail_top; cases rail_bottom)
       (simp_all add: render_board_def Let_def globals_update g'_def h_def svg_header_def
          draw_middle_holes draw_middle_plain draw_row_labels_plain draw_row_labels_all
          MARGIN_Y_def CELL_H_def RAIL_GAP_def TRENCH_H_def del: upto.simps)
qed

lemma row_holes_centres:
  "map hole_centre (row_holes columns i) = map (\<lambda>c. (col_to_x c, middle_row_y i True)) [1..columns]"
  by (simp add: row_holes_def Let_def py_range2_def comp_def hole_centre_hole del: upto.simps)

lemma draw_row_labels_both:
  "draw_row_labels columns True True =
     concat (map (\<lambda>(i, ch).
        [TextRot (MARGIN_X - ROW_LABEL_EDGE_OFFSET) (middle_row_y i True) 11 ''#333'' 90 [ch],
         TextRot (MARGIN_X + of_int columns * CELL_W + ROW_LABEL_EDGE_OFFSET) (middle_row_y i True)
           11 ''#333'' 90 [ch]])
       (zip [0..9] ROW_LABELS))"
  by (simp add: draw_row_labels_def Let_def py_enumerate_def ROW_LABELS_def tx_rot_def upto_rec1
      upt_conv_Cons)

lemma ROW_INDEX_range: "ROW_INDEX r = Some i \<Longrightarrow> 0 \<le> i \<and> i \<le> 9"
  by (auto simp: ROW_INDEX_def ROW_LABELS_def upt_conv_Cons split: if_splits)

lemma pad_to_coords_Inr:
  assumes "pad_to_coords pad = Inr xy"
  shows "\<exists>i col. 0 \<le> i \<and> i \<le> 9 \<and> py_int (tl (py_upper (py_strip pad))) = Some col \<and>
           xy = (col_to_x col, middle_row_y i True)"
proof -
  from assms obtain row rest col i where
    "py_upper (py_strip pad) = row # rest" "py_int rest = Some col" "ROW_INDEX row = Some i"
    "xy = (col_to_x col, middle_row_y i True)"
    by (auto simp: pad_to_coords_def Let_def split: list.splits option.splits)
  then show ?thesis
    using ROW_INDEX_range [of row i] by auto
qed


lemma filter_rail_row_y:
  "filter (\<lambda>p. P (hole_y p)) (draw_grouped_rail_holes columns y pr) =
     (if P y then draw_grouped_rail_holes columns y pr else [])"
  by (simp add: rail_holes_closed hole_y_hole filter_empty_conv del: upto.simps)

lemma filter_row_holes_y:
  "filter (\<lambda>p. P (hole_y p)) (row_holes columns i) =
     (if P (middle_row_y i True) then row_holes columns i else [])"
  by (simp add: row_holes_def Let_def hole_y_hole filter_empty_conv del: upto.simps)

lemma length_row_holes: "length (row_holes columns i) = nat columns"
  by (simp add: row_holes_def Let_def py_range2_def del: upto.simps)

lemma middle_rows_eval:
  "middle_rows = [84, 102, 120, 138, 156, 196, 214, 232, 250, 268]"
  by (simp add: middle_rows_def middle_row_y_def Let_def upto_rec1 geom_consts)

lemma middle_row_y_eval:
  "map (\<lambda>i. middle_row_y i True) [0..9] = [84, 102, 120, 138, 156, 196, 214, 232, 250, 268]"
  by (simp add: middle_row_y_def Let_def upto_rec1 geom_consts)

lemma rail_rows_eval:
  "rail_rows \<lparr>board_height = Some bh\<rparr> = [39, 57, bh - 61, bh - 43]"
  by (simp add: rail_rows_def rails_y_top rails_y_bottom RAIL_HOLE_OFFSET_def)

lemma comp_svg_resistor:
  "comp_svg [\<lparr>comp_type = ''resistor'', comp_pins = [''A5'', ''E5''], comp_value = None\<rparr>] =
     Inr [Line 138 84 138 156 ''#9c642b'' 3, Text 138 110 11 ''middle'' ''#333'' ''R'']"
  by code_simp

lemma board_63_parts:
  "\<exists>w d. render_board 63 True True initial_globals = (Inr (w, 362, d), \<lparr>board_height = Some 362\<rparr>) \<and>
        filter is_hole d =
          draw_grouped_rail_holes 63 39 True @ draw_grouped_rail_holes 63 57 False
          @ concat (map (row_holes 63) [0..9])
          @ draw_grouped_rail_holes 63 301 True @ draw_grouped_rail_holes 63 319 False \<and>
        filter is_connector d = []"
proof -
  obtain d where
    "render_board 63 True True initial_globals =
       (Inr (MARGIN_X + of_int 63 * CELL_W + MARGIN_X, 274 + 44 + 44, d),
        \<lparr>board_height = Some (274 + 44 + 44)\<rparr>)"
    "filter is_hole d =
          draw_grouped_rail_holes 63 39 True @ draw_grouped_rail_holes 63 57 False
          @ concat (map (row_holes 63) [0..9])
          @ draw_grouped_rail_holes 63 (213 + 44 + 44) True
          @ draw_grouped_rail_holes 63 (231 + 44 + 44) False"
    "filter is_connector d = []"
    using render_board_parts [of 63 True True initial_globals] by auto
  then show ?thesis
    by (simp del: upto.simps)
qed

text \<open>
  C9. Every render succeeds, and the holes of its drawing are, in order, the top rail
  holes (if \<^verbatim>\<open>rail_top\<close>), the middle field, and the bottom rail holes (if
  \<^verbatim>\<open>rail_bottom\<close>). The middle field is the same list for \<^verbatim>\<open>rail_top\<close> true and false:
  row \<open>i\<close>, column \<open>c\<close> at \<open>(col_to_x c, middle_row_y i True)\<close>, the row position
  computed with the top rails present, which lies the height of the top rail block below
  the position without them. The row letters of the drawing are at the same y-positions,
  whatever the rail flags, and a pad whose column is within \<open>1..columns\<close> resolves to the
  centre of one of these middle-field holes.
\<close>

theorem middle_field_ignores_rail_top:
  "\<not> isl (fst (render_board columns rail_top rail_bottom g)) \<and>
   map hole_centre (filter is_hole (drawing_of (render_board columns rail_top rail_bottom g))) =
     (if rail_top
      then map hole_centre (draw_grouped_rail_holes columns 39 True
                            @ draw_grouped_rail_holes columns 57 False)
      else [])
     @ concat (map (\<lambda>i. map (\<lambda>c. (col_to_x c, middle_row_y i True)) [1..columns]) [0..9])
     @ (if rail_bottom
        then map hole_centre
               (draw_grouped_rail_holes columns
                  (213 + (if rail_top then 44 else 0) + (if rail_bottom then 44 else 0)) True
                @ draw_grouped_rail_holes columns
                  (231 + (if rail_top then 44 else 0) + (if rail_bottom then 44 else 0)) False)
        else []) \<and>
   filter is_row_label (drawing_of (render_board columns rail_top rail_bottom g)) =
     concat (map (\<lambda>(i, ch).
        [TextRot (MARGIN_X - ROW_LABEL_EDGE_OFFSET) (middle_row_y i True) 11 ''#333'' 90 [ch],
         TextRot (MARGIN_X + of_int columns * CELL_W + ROW_LABEL_EDGE_OFFSET) (middle_row_y i True)
           11 ''#333'' 90 [ch]])
       (zip [0..9] ROW_LABELS)) \<and>
   (pad_to_coords pad = Inr xy \<and> py_int (tl (py_upper (py_strip pad))) = Some col \<and>
      1 \<le> col \<and> col \<le> columns \<longrightarrow>
      xy \<in> set (concat (map (\<lambda>i. map (\<lambda>c. (col_to_x c, middle_row_y i True)) [1..columns]) [0..9]))) \<and>
   middle_row_y i True = middle_row_y i False + (CELL_H * 2 + TOP_RAIL_GAP + TOP_RAIL_CLEARANCE)"
proof -
  obtain d where d:
    "render_board columns rail_top rail_bottom g =
          (Inr (MARGIN_X + of_int columns * CELL_W + MARGIN_X,
                274 + (if rail_top then 44 else 0) + (if rail_bottom then 44 else 0), d),
           \<lparr>board_height = Some (274 + (if rail_top then 44 else 0) + (if rail_bottom then 44 else 0))\<rparr>)"
    and holes: "filter is_hole d =
          (if rail_top then draw_grouped_rail_holes columns 39 True
                            @ draw_grouped_rail_holes columns 57 False else [])
          @ concat (map (row_holes columns) [0..9])
          @ (if rail_bottom then
               draw_grouped_rail_holes columns
                 (213 + (if rail_top then 44 else 0) + (if rail_bottom then 44 else 0)) True
               @ draw_grouped_rail_holes columns
                 (231 + (if rail_top then 44 else 0) + (if rail_bottom then 44 else 0)) False
             else [])"
    and labels: "filter is_row_label d = draw_row_labels columns True True"
    using render_board_parts [of columns rail_top rail_bottom g] by blast
  have dr: "drawing_of (render_board columns rail_top rail_bottom g) = d"
    by (simp add: drawing_of_def d)
  have c1: "\<not> isl (fst (render_board columns rail_top rail_bottom g))"
    by (simp add: d)
  have c2: "map hole_centre (filter is_hole (drawing_of (render_board columns rail_top rail_bottom g))) =
     (if rail_top
      then map hole_centre (draw_grouped_rail_holes columns 39 True
                            @ draw_grouped_rail_holes columns 57 False)
      else [])
     @ concat (map (\<lambda>i. map (\<lambda>c. (col_to_x c, middle_row_y i True)) [1..columns]) [0..9])
     @ (if rail_bottom
        then map hole_centre
               (draw_grouped_rail_holes columns
                  (213 + (if rail_top then 44 else 0) + (if rail_bottom then 44 else 0)) True
                @ draw_grouped_rail_holes columns
                  (231 + (if rail_top then 44 else 0) + (if rail_bottom then 44 else 0)) False)
        else [])"
    by (simp only: dr holes map_append map_concat list.map_comp comp_def row_holes_centres
        if_distrib [of "map hole_centre"] list.map)
  have c3: "filter is_row_label (drawing_of (render_board columns rail_top rail_bottom g)) =
     concat (map (\<lambda>(i, ch).
        [TextRot (MARGIN_X - ROW_LABEL_EDGE_OFFSET) (middle_row_y i True) 11 ''#333'' 90 [ch],
         TextRot (MARGIN_X + of_int columns * CELL_W + ROW_LABEL_EDGE_OFFSET) (middle_row_y i True)
           11 ''#333'' 90 [ch]])
       (zip [0..9] ROW_LABELS))"
    by (simp only: dr labels draw_row_labels_both)
  have c4: "xy \<in> set (concat (map (\<lambda>i. map (\<lambda>c. (col_to_x c, middle_row_y i True)) [1..columns]) [0..9]))"
    if "pad_to_coords pad = Inr xy \<and> py_int (tl (py_upper (py_strip pad))) = Some col \<and>
      1 \<le> col \<and> col \<le> columns"
  proof -
    from that pad_to_coords_Inr [of pad xy] obtain j where
      "0 \<le> j" "j \<le> 9" "xy = (col_to_x col, middle_row_y j True)"
      by auto
    with that have j: "j \<in> set [0..9]" and col: "col \<in> set [1..columns]"
      and xy: "xy = (col_to_x col, middle_row_y j True)"
      by (simp_all del: upto.simps)
    from col have "xy \<in> set (map (\<lambda>c. (col_to_x c, middle_row_y j True)) [1..columns])"
      unfolding xy set_map by (rule imageI)
    moreover from j have "map (\<lambda>c. (col_to_x c, middle_row_y j True)) [1..columns]
        \<in> set (map (\<lambda>i. map (\<lambda>c. (col_to_x c, middle_row_y i True)) [1..columns]) [0..9])"
      unfolding set_map by (rule imageI)
    ultimately show ?thesis
      unfolding set_concat by (rule UN_I [rotated])
  qed
  have c5: "middle_row_y i True = middle_row_y i False + (CELL_H * 2 + TOP_RAIL_GAP + TOP_RAIL_CLEARANCE)"
    by (simp add: middle_row_y_def Let_def)
  from c1 c2 c3 c4 c5 show ?thesis by blast
qed


theorem middle_field_ignores_rail_top_witness:
  "pad_to_coords ''A5'' = Inr (138, 84) \<and>
   py_int (tl (py_upper (py_strip ''A5''))) = Some 5 \<and>
   (1::int) \<le> 5 \<and> (5::int) \<le> 63 \<and>
   (138, 84) \<in> set (concat (map (\<lambda>i. map (\<lambda>c. (col_to_x c, middle_row_y i True)) [1..63]) [0..9])) \<and>
   \<not> isl (fst (render_board 63 False True initial_globals)) \<and>
   middle_row_y 0 True = middle_row_y 0 False + (CELL_H * 2 + TOP_RAIL_GAP + TOP_RAIL_CLEARANCE)"
proof -
  have a: "pad_to_coords ''A5'' = Inr (138, 84)" by code_simp
  have b: "py_int (tl (py_upper (py_strip ''A5''))) = Some 5" by code_simp
  note r = middle_field_ignores_rail_top
    [of 63 False True initial_globals "''A5''" "(138, 84)" 5 0]
  from r a b have "(138, 84) \<in> set (concat (map (\<lambda>i. map (\<lambda>c. (col_to_x c, middle_row_y i True)) [1..63]) [0..9]))"
    by (simp del: upto.simps set_concat set_map)
  moreover from r have "\<not> isl (fst (render_board 63 False True initial_globals))"
    by (rule conjunct1)
  moreover from r have "middle_row_y 0 True =
      middle_row_y 0 False + (CELL_H * 2 + TOP_RAIL_GAP + TOP_RAIL_CLEARANCE)"
    by blast
  ultimately show ?thesis using a b by simp
qed

subsection \<open>The end-to-end example\<close>

lemma length_filter_if: "length (if b then xs else []) = (if b then length xs else 0)"
  by simp

lemma count_rail_row:
  "length (filter (\<lambda>p. P (hole_y p)) (draw_grouped_rail_holes columns y pr)) =
     (if P y then 50 else 0)"
  by (simp only: filter_rail_row_y length_filter_if rail_holes_length)

lemma count_row_holes:
  "length (filter (\<lambda>p. P (hole_y p)) (row_holes columns i)) =
     (if P (middle_row_y i True) then nat columns else 0)"
  by (simp only: filter_row_holes_y length_filter_if length_row_holes)

lemma count_rows:
  "length (filter (\<lambda>p. P (hole_y p)) (concat (map (row_holes columns) is))) =
     sum_list (map (\<lambda>i. if P (middle_row_y i True) then nat columns else 0) is)"
  by (induction "is") (simp_all only: list.map concat.simps filter.simps filter_append
        length_append count_row_holes sum_list.Nil sum_list.Cons list.size)

lemma count_page:
  "length (filter (\<lambda>p. P (hole_y p))
     (draw_grouped_rail_holes c y1 a1 @ draw_grouped_rail_holes c y2 a2
      @ concat (map (row_holes c) is)
      @ draw_grouped_rail_holes c y3 a3 @ draw_grouped_rail_holes c y4 a4)) =
   (if P y1 then 50 else 0) + (if P y2 then 50 else 0)
   + sum_list (map (\<lambda>i. if P (middle_row_y i True) then nat c else 0) is)
   + (if P y3 then 50 else 0) + (if P y4 then 50 else 0)"
  by (simp only: filter_append length_append count_rail_row count_rows add.assoc)


lemma sum_rows_eval:
  "sum_list (map (\<lambda>i. if P (middle_row_y i True) then n else 0) [0..9]) =
   sum_list (map (\<lambda>y. if P y then n else (0::nat)) [84, 102, 120, 138, 156, 196, 214, 232, 250, 268])"
proof -
  have "map (\<lambda>i. if P (middle_row_y i True) then n else 0) [0..9] =
        map (\<lambda>y. if P y then n else 0) (map (\<lambda>i. middle_row_y i True) [0..9])"
    by (simp only: list.map_comp comp_def)
  then show ?thesis by (simp only: middle_row_y_eval)
qed

lemma count_middle_63:
  "length (filter (\<lambda>p. hole_y p \<in> set middle_rows)
     (draw_grouped_rail_holes 63 39 True @ draw_grouped_rail_holes 63 57 False
      @ concat (map (row_holes 63) [0..9])
      @ draw_grouped_rail_holes 63 301 True @ draw_grouped_rail_holes 63 319 False)) = 630"
  unfolding count_page [of "\<lambda>y. y \<in> set middle_rows"]
    sum_rows_eval [of "\<lambda>y. y \<in> set middle_rows"]
  by (simp add: middle_rows_eval)

lemma count_rails_63:
  "length (filter (\<lambda>p. hole_y p \<in> set [39, 57, 301, 319])
     (draw_grouped_rail_holes 63 39 True @ draw_grouped_rail_holes 63 57 False
      @ concat (map (row_holes 63) [0..9])
      @ draw_grouped_rail_holes 63 301 True @ draw_grouped_rail_holes 63 319 False)) = 200"
  unfolding count_page [of "\<lambda>y. y \<in> set [39, 57, 301, 319]"]
    sum_rows_eval [of "\<lambda>y. y \<in> set [39, 57, 301, 319]"]
  by simp

lemma count_holes_63:
  "length (draw_grouped_rail_holes 63 39 True @ draw_grouped_rail_holes 63 57 False
      @ concat (map (row_holes 63) [0..9])
      @ draw_grouped_rail_holes 63 301 True @ draw_grouped_rail_holes 63 319 False) = 830"
  using count_page [of "\<lambda>y. True" 63 39 True 57 False "[0..9]" 301 True 319 False]
  unfolding sum_rows_eval [of "\<lambda>y. True"] by simp


lemma board_63_counts:
  "\<not> isl (fst (render_board 63 True True initial_globals)) \<and>
   length (filter is_middle_hole (drawing_of (render_board 63 True True initial_globals))) = 630 \<and>
   length (filter (is_rail_hole (snd (render_board 63 True True initial_globals)))
             (drawing_of (render_board 63 True True initial_globals))) = 200 \<and>
   length (filter is_hole (drawing_of (render_board 63 True True initial_globals))) = 830"
proof -
  obtain w d where m: "render_board 63 True True initial_globals =
          (Inr (w, 362, d), \<lparr>board_height = Some 362\<rparr>)"
    and ph: "filter is_hole d =
          draw_grouped_rail_holes 63 39 True @ draw_grouped_rail_holes 63 57 False
          @ concat (map (row_holes 63) [0..9])
          @ draw_grouped_rail_holes 63 301 True @ draw_grouped_rail_holes 63 319 False"
    using board_63_parts by blast
  have dr: "drawing_of (render_board 63 True True initial_globals) = d"
    by (simp add: drawing_of_def m)
  have st: "snd (render_board 63 True True initial_globals) = \<lparr>board_height = Some 362\<rparr>"
    by (simp add: m)
  have c1: "\<not> isl (fst (render_board 63 True True initial_globals))"
    by (simp add: m)
  have mid: "filter is_middle_hole d =
      filter (\<lambda>p. hole_y p \<in> set middle_rows) (filter is_hole d)"
    unfolding filter_filter is_middle_hole_def [abs_def]
    by (rule filter_cong) auto
  have c3: "length (filter is_middle_hole d) = 630"
    unfolding mid ph by (rule count_middle_63)
  have rr: "rail_rows \<lparr>board_height = Some 362\<rparr> = [39, 57, 301, 319]"
    by (simp add: rail_rows_eval)
  have rail: "filter (is_rail_hole \<lparr>board_height = Some 362\<rparr>) d =
      filter (\<lambda>p. hole_y p \<in> set [39, 57, 301, 319]) (filter is_hole d)"
    unfolding filter_filter is_rail_hole_def [abs_def] rr
    by (rule filter_cong) auto
  have c4: "length (filter (is_rail_hole \<lparr>board_height = Some 362\<rparr>) d) = 200"
    unfolding rail ph by (rule count_rails_63)
  have c5: "length (filter is_hole d) = 830"
    unfolding ph by (rule count_holes_63)
  from c1 c3 c4 c5 show ?thesis
    unfolding dr st by blast
qed

text \<open>
  C5, as stated, fails in its count of rail holes: with both rail blocks the drawing of
  the 63-column board holds four rail rows of 50 holes, not two.
\<close>

theorem board_rail_holes_not_100:
  "length (filter (is_rail_hole (snd (render_board 63 True True initial_globals)))
             (drawing_of (render_board 63 True True initial_globals))) \<noteq> 2 * 50"
  using board_63_counts by simp

text \<open>
  C5, amended. For 63 columns and both rail blocks the render succeeds and its drawing
  contains exactly 63 * 10 middle-field holes and exactly 4 * 50 rail holes, and no other
  holes. The single resistor between \<^verbatim>\<open>A5\<close> and \<^verbatim>\<open>E5\<close> is rendered, by
  \<^verbatim>\<open>draw_resistor\<close> and so by the component loop of \<^verbatim>\<open>main\<close>, as exactly one connector
  line, from the coordinates of pad \<^verbatim>\<open>A5\<close> to those of pad \<^verbatim>\<open>E5\<close>, and its label.
\<close>

theorem resistor_board:
  "\<not> isl (fst (render_board 63 True True initial_globals)) \<and>
   length (filter is_middle_hole (drawing_of (render_board 63 True True initial_globals))) = 63 * 10 \<and>
   length (filter (is_rail_hole (snd (render_board 63 True True initial_globals)))
             (drawing_of (render_board 63 True True initial_globals))) = 4 * 50 \<and>
   length (filter is_hole (drawing_of (render_board 63 True True initial_globals))) = 63 * 10 + 4 * 50 \<and>
   draw_resistor ''A5'' ''E5'' [] =
     Inr [Line 138 84 138 156 ''#9c642b'' 3, Text 138 110 11 ''middle'' ''#333'' ''R''] \<and>
   comp_svg [\<lparr>comp_type = ''resistor'', comp_pins = [''A5'', ''E5''], comp_value = None\<rparr>] =
     Inr [Line 138 84 138 156 ''#9c642b'' 3, Text 138 110 11 ''middle'' ''#333'' ''R''] \<and>
   filter is_connector [Line 138 84 138 156 ''#9c642b'' 3, Text 138 110 11 ''middle'' ''#333'' ''R''] =
     [Line 138 84 138 156 ''#9c642b'' 3] \<and>
   pad_to_coords ''A5'' = Inr (138, 84) \<and> pad_to_coords ''E5'' = Inr (138, 156)"
proof -
  have "pad_to_coords ''A5'' = Inr (138, 84)" "pad_to_coords ''E5'' = Inr (138, 156)"
    by code_simp+
  moreover have "draw_resistor ''A5'' ''E5'' [] =
     Inr [Line 138 84 138 156 ''#9c642b'' 3, Text 138 110 11 ''middle'' ''#333'' ''R'']"
    by code_simp
  ultimately show ?thesis
    using board_63_counts comp_svg_resistor by simp
qed

end
